theory Spec2Isabelle
  imports Complex_Main "HOL-Library.AList" "HOL-Library.Monad_Syntax"
begin

section \<open>Python values shared by the services\<close>

text \<open>
  Exceptions of the Python runtime that the modelled code can raise. A function that can
  raise returns \<open>py_error + 'a\<close>, with \<open>Inl\<close> for the exception.
\<close>

datatype py_error = ValueError | TypeError | OverflowError | ValidationError

section \<open>Geodesy: \<open>calculate_distance\<close>\<close>

text \<open>
  \<open>main.calculate_distance\<close> and \<open>LocationService.calculate_distance\<close> have the same body.
  Python floats are idealised as real numbers (no rounding). \<open>math.sqrt\<close> raises
  \<open>ValueError\<close> on a negative argument and \<open>math.asin\<close> outside \<open>[-1, 1]\<close>; both raises
  are branches of the model.
\<close>

definition radians :: "real \<Rightarrow> real" where
  "radians x = x * pi / 180"

definition math_sqrt :: "real \<Rightarrow> py_error + real" where
  "math_sqrt x = (if x < 0 then Inl ValueError else Inr (sqrt x))"

definition math_asin :: "real \<Rightarrow> py_error + real" where
  "math_asin x = (if x < -1 \<or> 1 < x then Inl ValueError else Inr (arcsin x))"

definition haversine_a :: "real \<Rightarrow> real \<Rightarrow> real \<Rightarrow> real \<Rightarrow> real" where
  "haversine_a lat1 lon1 lat2 lon2 =
     (let lat1_rad = radians lat1;
          lon1_rad = radians lon1;
          lat2_rad = radians lat2;
          lon2_rad = radians lon2;
          dlat = lat2_rad - lat1_rad;
          dlon = lon2_rad - lon1_rad
      in (sin (dlat / 2))\<^sup>2 + cos lat1_rad * cos lat2_rad * (sin (dlon / 2))\<^sup>2)"

definition calculate_distance :: "real \<Rightarrow> real \<Rightarrow> real \<Rightarrow> real \<Rightarrow> py_error + real" where
  "calculate_distance lat1 lon1 lat2 lon2 =
     (let R = 3959;
          a = haversine_a lat1 lon1 lat2 lon2
      in case math_sqrt a of
           Inl e \<Rightarrow> Inl e
         | Inr s \<Rightarrow> (case math_asin s of
                       Inl e \<Rightarrow> Inl e
                     | Inr t \<Rightarrow> Inr (R * (2 * t))))"

definition LocationService_calculate_distance ::
  "real \<Rightarrow> real \<Rightarrow> real \<Rightarrow> real \<Rightarrow> py_error + real" where
  "LocationService_calculate_distance lat1 lon1 lat2 lon2 =
     (let R = 3959;
          a = haversine_a lat1 lon1 lat2 lon2
      in case math_sqrt a of
           Inl e \<Rightarrow> Inl e
         | Inr s \<Rightarrow> (case math_asin s of
                       Inl e \<Rightarrow> Inl e
                     | Inr t \<Rightarrow> Inr (R * (2 * t))))"

definition validate_coordinates :: "real \<Rightarrow> real \<Rightarrow> bool" where
  "validate_coordinates lat lng = (-90 \<le> lat \<and> lat \<le> 90 \<and> -180 \<le> lng \<and> lng \<le> 180)"

section \<open>Location service\<close>

text \<open>
  The pydantic model \<open>LocationData\<close>. An \<open>Optional\<close> field is an \<open>option\<close>.
\<close>

record LocationData =
  latitude :: real
  longitude :: real
  accuracy :: "real option"
  city :: "string option"
  state :: "string option"
  country :: "string option"
  zip_code :: "string option"
  source :: string

text \<open>
  The outcome of one HTTP request: \<open>HTTPFailure\<close> stands for an \<open>httpx.HTTPError\<close>
  raised by \<open>client.get\<close> or \<open>raise_for_status\<close>, \<open>HTTPBodyInvalid\<close> for a body
  that \<open>response.json\<close> cannot decode, and \<open>HTTPBody\<close> carries the decoded document.
\<close>

datatype 'a http_result = HTTPFailure | HTTPBodyInvalid | HTTPBody 'a

text \<open>
  The documents of the Google geocoding API, as far as the service reads them. A key that
  may be missing is an \<open>option\<close>; \<open>gr_location\<close> is \<open>result["geometry"]["location"]\<close>
  with its \<open>lat\<close> and \<open>lng\<close>.
\<close>

record address_component =
  ac_types :: "string list option"
  ac_long_name :: "string option"
  ac_short_name :: "string option"

record geocode_result =
  gr_location :: "(real \<times> real) option"
  gr_address_components :: "address_component list option"
  gr_formatted_address :: "string option"
  gr_place_id :: "string option"

record geocode_data =
  gd_status :: "string option"
  gd_results :: "geocode_result list option"

text \<open>The document of the IP geolocation service (ipapi.co).\<close>

record ip_data =
  ip_error :: bool
  ip_latitude :: "real option"
  ip_longitude :: "real option"
  ip_city :: "string option"
  ip_region :: "string option"
  ip_country_name :: "string option"
  ip_postal :: "string option"

text \<open>
  The remote services the location service calls: the geocoding API asked for an
  address, the same API asked for a coordinate pair, and the IP lookup with the URL the
  code built.
\<close>

record location_upstream =
  geocode_by_address :: "string \<Rightarrow> geocode_data http_result"
  geocode_by_latlng :: "real \<Rightarrow> real \<Rightarrow> geocode_data http_result"
  ipapi_get :: "string \<Rightarrow> ip_data http_result"

record LocationService =
  google_api_key :: "string option"

text \<open>Truthiness of an optional string: \<open>None\<close> and the empty string are falsy.\<close>

definition truthy_str :: "string option \<Rightarrow> bool" where
  "truthy_str s = (case s of None \<Rightarrow> False | Some t \<Rightarrow> t \<noteq> [])"

definition get_location_from_ip ::
  "location_upstream \<Rightarrow> string option \<Rightarrow> LocationData option" where
  "get_location_from_ip up ip_address =
     (let url = (if truthy_str ip_address
                 then ''http://ipapi.co/'' @ the ip_address @ ''/json/''
                 else ''http://ipapi.co/json/'')
      in case ipapi_get up url of
           HTTPFailure \<Rightarrow> None
         | HTTPBodyInvalid \<Rightarrow> None
         | HTTPBody data \<Rightarrow>
             if ip_error data then None
             else Some \<lparr> latitude = (case ip_latitude data of None \<Rightarrow> 0 | Some x \<Rightarrow> x),
                         longitude = (case ip_longitude data of None \<Rightarrow> 0 | Some x \<Rightarrow> x),
                         accuracy = None,
                         city = ip_city data,
                         state = ip_region data,
                         country = ip_country_name data,
                         zip_code = ip_postal data,
                         source = ''ip'' \<rparr>)"

text \<open>
  The loop over \<open>address_components\<close> of \<open>geocode_address\<close>; the state is the
  four variables \<open>city\<close>, \<open>state\<close>, \<open>country\<close>, \<open>zip_code\<close> and a later matching component overwrites an
  earlier one.
\<close>

fun extract_components ::
  "address_component list \<Rightarrow>
   string option \<times> string option \<times> string option \<times> string option \<Rightarrow>
   string option \<times> string option \<times> string option \<times> string option" where
  "extract_components [] acc = acc"
| "extract_components (component # rest) (city_v, state_v, country_v, zip_v) =
     (let types = (case ac_types component of None \<Rightarrow> [] | Some ts \<Rightarrow> ts)
      in if ''locality'' \<in> set types
           then extract_components rest (ac_long_name component, state_v, country_v, zip_v)
         else if ''administrative_area_level_1'' \<in> set types
           then extract_components rest (city_v, ac_short_name component, country_v, zip_v)
         else if ''country'' \<in> set types
           then extract_components rest (city_v, state_v, ac_long_name component, zip_v)
         else if ''postal_code'' \<in> set types
           then extract_components rest (city_v, state_v, country_v, ac_long_name component)
         else extract_components rest (city_v, state_v, country_v, zip_v))"

definition geocode_address ::
  "LocationService \<Rightarrow> location_upstream \<Rightarrow> string \<Rightarrow> LocationData option" where
  "geocode_address self up address =
     (if \<not> truthy_str (google_api_key self) then None
      else case geocode_by_address up address of
             HTTPFailure \<Rightarrow> None
           | HTTPBodyInvalid \<Rightarrow> None
           | HTTPBody data \<Rightarrow>
               if gd_status data \<noteq> Some ''OK'' then None
               else (case gd_results data of
                       None \<Rightarrow> None
                     | Some [] \<Rightarrow> None
                     | Some (result # _) \<Rightarrow>
                         (case gr_location result of
                            None \<Rightarrow> None
                          | Some (lat, lng) \<Rightarrow>
                              (let components = (case gr_address_components result of
                                                   None \<Rightarrow> [] | Some cs \<Rightarrow> cs);
                                   (city_v, state_v, country_v, zip_v) =
                                     extract_components components (None, None, None, None)
                               in Some \<lparr> latitude = lat,
                                           longitude = lng,
                                           accuracy = None,
                                           city = city_v,
                                           state = state_v,
                                           country = country_v,
                                           zip_code = zip_v,
                                           source = ''geocoded_address'' \<rparr>))))"

text \<open>
  \<open>reverse_geocode\<close> returns \<open>None\<close> or a dictionary, modelled as an association list in
  the order the literal lists its keys.
\<close>

definition reverse_geocode ::
  "LocationService \<Rightarrow> location_upstream \<Rightarrow> real \<Rightarrow> real \<Rightarrow> (string \<times> string) list option" where
  "reverse_geocode self up lat lng =
     (if \<not> truthy_str (google_api_key self) then None
      else case geocode_by_latlng up lat lng of
             HTTPFailure \<Rightarrow> None
           | HTTPBodyInvalid \<Rightarrow> None
           | HTTPBody data \<Rightarrow>
               if gd_status data \<noteq> Some ''OK'' then None
               else (case gd_results data of
                       None \<Rightarrow> None
                     | Some [] \<Rightarrow> None
                     | Some (result # _) \<Rightarrow>
                         Some [(''formatted_address'',
                                  (case gr_formatted_address result of None \<Rightarrow> '''' | Some a \<Rightarrow> a)),
                               (''place_id'',
                                  (case gr_place_id result of None \<Rightarrow> '''' | Some i \<Rightarrow> i))]))"

text \<open>
  \<open>get_user_location\<close>: explicit coordinates first, then the address, then the IP.
  \<open>address_info.get("city") if address_info else None\<close> reads the dictionary only when
  it is not \<open>None\<close> and not empty.
\<close>

definition get_user_location ::
  "LocationService \<Rightarrow> location_upstream \<Rightarrow> string option \<Rightarrow> string option \<Rightarrow>
   real option \<Rightarrow> real option \<Rightarrow> LocationData option" where
  "get_user_location self up ip_address address lat lng =
     (if lat \<noteq> None \<and> lng \<noteq> None then
        (let address_info = reverse_geocode self up (the lat) (the lng)
         in Some \<lparr> latitude = the lat,
                     longitude = the lng,
                     accuracy = None,
                     city = (case address_info of
                               None \<Rightarrow> None
                             | Some d \<Rightarrow> if d = [] then None else map_of d ''city''),
                     state = None,
                     country = None,
                     zip_code = None,
                     source = ''user_provided'' \<rparr>)
      else
        (let by_address = (if truthy_str address
                           then geocode_address self up (the address) else None)
         in case by_address of
              Some location \<Rightarrow> Some location
            | None \<Rightarrow> get_location_from_ip up ip_address))"

section \<open>Python values of the analysis service\<close>

text \<open>
  A Python float is a real number inside the range of a double, or one of the three
  special values. Rounding to the nearest double is not modelled; leaving the range is:
  \<open>DBL_OVERFLOW\<close> is the least magnitude that rounds to infinity.
\<close>

datatype pyfloat = Finite real | PosInf | NegInf | NaN

definition DBL_OVERFLOW :: real where
  "DBL_OVERFLOW = 2 ^ 1024 - 2 ^ 970"

definition to_float :: "real \<Rightarrow> pyfloat" where
  "to_float r = (if DBL_OVERFLOW \<le> r then PosInf
                 else if r \<le> - DBL_OVERFLOW then NegInf
                 else Finite r)"

text \<open>Comparison of floats: every comparison with \<open>nan\<close> is false.\<close>

fun float_lt :: "pyfloat \<Rightarrow> pyfloat \<Rightarrow> bool" where
  "float_lt NaN _ = False"
| "float_lt _ NaN = False"
| "float_lt (Finite a) (Finite b) = (a < b)"
| "float_lt (Finite a) PosInf = True"
| "float_lt (Finite a) NegInf = False"
| "float_lt PosInf _ = False"
| "float_lt NegInf NegInf = False"
| "float_lt NegInf _ = True"

definition float_ge :: "pyfloat \<Rightarrow> pyfloat \<Rightarrow> bool" where
  "float_ge a b = (case (a, b) of
                     (NaN, _) \<Rightarrow> False
                   | (_, NaN) \<Rightarrow> False
                   | _ \<Rightarrow> \<not> float_lt a b)"

text \<open>
  \<open>min(a, b)\<close> returns \<open>a\<close> unless \<open>b < a\<close>, and \<open>max(a, b)\<close> returns \<open>a\<close> unless
  \<open>b > a\<close>.
\<close>

definition py_min :: "pyfloat \<Rightarrow> pyfloat \<Rightarrow> pyfloat" where
  "py_min a b = (if float_lt b a then b else a)"

definition py_max :: "pyfloat \<Rightarrow> pyfloat \<Rightarrow> pyfloat" where
  "py_max a b = (if float_lt a b then b else a)"

text \<open>
  A decoded JSON document, as \<open>json.loads\<close> returns it. A dictionary is an association
  list with distinct keys in insertion order; \<open>map_of\<close> reads it and \<open>AList.update\<close> is
  the assignment \<open>d[k] = v\<close>. Characters are read as the code points below 256.
\<close>

datatype json =
    JNull
  | JBool bool
  | JInt int
  | JFloat pyfloat
  | JStr string
  | JList "json list"
  | JObj "(string \<times> json) list"

type_synonym dict = "(string \<times> json) list"

text \<open>\<open>d.get(k, default)\<close>.\<close>

definition dict_get :: "dict \<Rightarrow> string \<Rightarrow> json \<Rightarrow> json" where
  "dict_get d k dflt = (case map_of d k of None \<Rightarrow> dflt | Some v \<Rightarrow> v)"

subsection \<open>Strings\<close>

definition is_ascii_digit :: "char \<Rightarrow> bool" where
  "is_ascii_digit c = (let n = (of_char c :: nat) in 48 \<le> n \<and> n \<le> 57)"

definition digit_value :: "char \<Rightarrow> nat" where
  "digit_value c = of_char c - 48"

text \<open>
  \<open>str.isspace\<close> on the code points below 256: the ASCII white space, the four
  separators \<open>0x1C\<close> to \<open>0x1F\<close>, \<open>0x85\<close> and \<open>0xA0\<close>.
\<close>

definition py_isspace :: "char \<Rightarrow> bool" where
  "py_isspace c = (let n = (of_char c :: nat)
                   in (9 \<le> n \<and> n \<le> 13) \<or> (28 \<le> n \<and> n \<le> 32) \<or> n = 133 \<or> n = 160)"

definition py_strip :: "string \<Rightarrow> string" where
  "py_strip s = rev (dropWhile py_isspace (rev (dropWhile py_isspace s)))"

text \<open>
  \<open>str.lower\<close> on the code points below 256: the ASCII capitals and the Latin-1 capitals
  \<open>0xC0\<close> to \<open>0xDE\<close> without the multiplication sign \<open>0xD7\<close>.
\<close>

definition lower_char :: "char \<Rightarrow> char" where
  "lower_char c = (let n = (of_char c :: nat)
                   in if (65 \<le> n \<and> n \<le> 90) \<or> (192 \<le> n \<and> n \<le> 222 \<and> n \<noteq> 215)
                      then char_of (n + 32) else c)"

definition py_lower :: "string \<Rightarrow> string" where
  "py_lower s = map lower_char s"

text \<open>
  \<open>str.isdigit\<close> on the code points below 256: the ASCII digits and the superscripts
  \<open>0xB2\<close>, \<open>0xB3\<close> and \<open>0xB9\<close>. The empty string is not a digit string.
\<close>

definition isdigit_char :: "char \<Rightarrow> bool" where
  "isdigit_char c = (is_ascii_digit c \<or> of_char c \<in> {178, 179, 185 :: nat})"

definition py_isdigit :: "string \<Rightarrow> bool" where
  "py_isdigit s = (s \<noteq> [] \<and> list_all isdigit_char s)"

definition digits_to_nat :: "nat list \<Rightarrow> nat" where
  "digits_to_nat ds = foldl (\<lambda>a d. 10 * a + d) 0 ds"

text \<open>
  \<open>int(s)\<close> for a string that passed \<open>isdigit\<close>: the ASCII digits are read in base 10, a
  superscript digit raises \<open>ValueError\<close>.
\<close>

definition int_of_digit_string :: "string \<Rightarrow> py_error + int" where
  "int_of_digit_string s =
     (if s \<noteq> [] \<and> list_all is_ascii_digit s
      then Inr (int (digits_to_nat (map digit_value s)))
      else Inl ValueError)"

text \<open>\<open>str(n)\<close> for an integer.\<close>

fun nat_digits :: "nat \<Rightarrow> nat \<Rightarrow> string" where
  "nat_digits 0 n = []"
| "nat_digits (Suc fuel) n =
     (if n < 10 then [char_of (48 + n)]
      else nat_digits fuel (n div 10) @ [char_of (48 + n mod 10)])"

definition str_nat :: "nat \<Rightarrow> string" where
  "str_nat n = nat_digits (Suc n) n"

definition str_int :: "int \<Rightarrow> string" where
  "str_int i = (if i < 0 then CHR ''-'' # str_nat (nat (- i)) else str_nat (nat i))"

subsection \<open>The built-in \<open>float\<close>\<close>

text \<open>
  A digit part of a float literal: digits with single underscores between them.
\<close>

fun digitpart :: "string \<Rightarrow> nat list option" where
  "digitpart [] = None"
| "digitpart [c] = (if is_ascii_digit c then Some [digit_value c] else None)"
| "digitpart (c # d # cs) =
     (if \<not> is_ascii_digit c then None
      else if d = CHR ''_'' then map_option ((#) (digit_value c)) (digitpart cs)
      else map_option ((#) (digit_value c)) (digitpart (d # cs)))"

text \<open>
  The number before the exponent: \<open>digitpart ["."]\<close> or \<open>[digitpart] "." digitpart\<close>.
  The result is the digits of the integer part and of the fraction.
\<close>

definition split_at_char :: "(char \<Rightarrow> bool) \<Rightarrow> string \<Rightarrow> string \<times> string option" where
  "split_at_char p s = (case dropWhile (\<lambda>c. \<not> p c) s of
                          [] \<Rightarrow> (s, None)
                        | _ # rest \<Rightarrow> (takeWhile (\<lambda>c. \<not> p c) s, Some rest))"

definition parse_number :: "string \<Rightarrow> (nat list \<times> nat list) option" where
  "parse_number s =
     (case split_at_char (\<lambda>c. c = CHR ''.'') s of
        (ip, None) \<Rightarrow> map_option (\<lambda>ds. (ds, [])) (digitpart ip)
      | (ip, Some fp) \<Rightarrow>
          if fp = [] then map_option (\<lambda>ds. (ds, [])) (digitpart ip)
          else if ip = [] then map_option (\<lambda>fs. ([], fs)) (digitpart fp)
          else (case (digitpart ip, digitpart fp) of
                  (Some ds, Some fs) \<Rightarrow> Some (ds, fs)
                | _ \<Rightarrow> None))"

definition parse_sign :: "string \<Rightarrow> bool \<times> string" where
  "parse_sign s = (case s of
                     c # rest \<Rightarrow> if c = CHR ''-'' then (True, rest)
                                 else if c = CHR ''+'' then (False, rest)
                                 else (False, s)
                   | [] \<Rightarrow> (False, s))"

definition parse_exponent :: "string \<Rightarrow> int option" where
  "parse_exponent s =
     (case parse_sign s of
        (neg, rest) \<Rightarrow>
          map_option (\<lambda>ds. if neg then - int (digits_to_nat ds) else int (digits_to_nat ds))
            (digitpart rest))"

definition pow10 :: "int \<Rightarrow> real" where
  "pow10 e = (if 0 \<le> e then 10 ^ nat e else 1 / 10 ^ nat (- e))"

definition parse_floatnumber :: "string \<Rightarrow> real option" where
  "parse_floatnumber s =
     (case split_at_char (\<lambda>c. c = CHR ''e'' \<or> c = CHR ''E'') s of
        (m, ex) \<Rightarrow>
          (case parse_number m of
             None \<Rightarrow> None
           | Some (ds, fs) \<Rightarrow>
               (let mant = real (digits_to_nat ds)
                           + real (digits_to_nat fs) / 10 ^ length fs
                in case ex of
                     None \<Rightarrow> Some mant
                   | Some es \<Rightarrow> map_option (\<lambda>e. mant * pow10 e) (parse_exponent es))))"

text \<open>
  \<open>float(s)\<close> for a string. The conversion strips less than \<open>str.strip\<close>: the ASCII
  white space (tab to carriage return, and the space) and the two spaces above 127
  (\<open>0x85\<close>, \<open>0xA0\<close>), but not the separators \<open>0x1C\<close> to \<open>0x1F\<close>. Then come an
  optional sign and \<open>inf\<close>, \<open>infinity\<close> or \<open>nan\<close> in any case, or a decimal number, whose
  value is taken exactly. Anything else raises \<open>ValueError\<close>.
\<close>

definition float_isspace :: "char \<Rightarrow> bool" where
  "float_isspace c = (let n = (of_char c :: nat)
                      in (9 \<le> n \<and> n \<le> 13) \<or> n = 32 \<or> n = 133 \<or> n = 160)"

definition float_strip :: "string \<Rightarrow> string" where
  "float_strip s = rev (dropWhile float_isspace (rev (dropWhile float_isspace s)))"

definition float_of_string :: "string \<Rightarrow> py_error + pyfloat" where
  "float_of_string s =
     (case parse_sign (float_strip s) of
        (neg, rest) \<Rightarrow>
          (let low = py_lower rest
           in if low = ''inf'' \<or> low = ''infinity'' then Inr (if neg then NegInf else PosInf)
              else if low = ''nan'' then Inr NaN
              else (case parse_floatnumber rest of
                      None \<Rightarrow> Inl ValueError
                    | Some r \<Rightarrow> Inr (to_float (if neg then - r else r)))))"

text \<open>
  \<open>float(v)\<close>: a float is returned as it is, a bool counts as 0 or 1, an integer beyond
  the range of a double raises \<open>OverflowError\<close>, a string is parsed, and \<open>None\<close>, a list
  or a dictionary raise \<open>TypeError\<close>.
\<close>

definition py_float :: "json \<Rightarrow> py_error + pyfloat" where
  "py_float v =
     (case v of
        JNull \<Rightarrow> Inl TypeError
      | JBool b \<Rightarrow> Inr (Finite (if b then 1 else 0))
      | JInt n \<Rightarrow> if DBL_OVERFLOW \<le> \<bar>real_of_int n\<bar> then Inl OverflowError
                  else Inr (Finite (real_of_int n))
      | JFloat f \<Rightarrow> Inr f
      | JStr s \<Rightarrow> float_of_string s
      | JList _ \<Rightarrow> Inl TypeError
      | JObj _ \<Rightarrow> Inl TypeError)"

section \<open>Analysis service\<close>

text \<open>
  The pydantic model \<open>RestaurantAnalysis\<close>. A category block is a dictionary; the
  confidence is a float of the model and is read as a real number.
\<close>

record RestaurantAnalysis =
  overall_rating :: string
  overall_summary :: string
  food_quality :: dict
  service_quality :: dict
  atmosphere :: dict
  value_for_money :: dict
  key_highlights :: "string list"
  potential_concerns :: "string list"
  recommendation :: string
  best_for :: "string list"
  price_range_assessment :: string
  confidence_score :: real

subsection \<open>Numbers in the fallback analysis\<close>

text \<open>
  The numeric reading of a value: a bool is the integer 0 or 1. Everything else is not a
  number, and comparing it with a float raises \<open>TypeError\<close>.
\<close>

datatype pynum = PInt int | PFloat pyfloat

definition as_num :: "json \<Rightarrow> pynum option" where
  "as_num v = (case v of
                 JBool b \<Rightarrow> Some (PInt (if b then 1 else 0))
               | JInt n \<Rightarrow> Some (PInt n)
               | JFloat f \<Rightarrow> Some (PFloat f)
               | _ \<Rightarrow> None)"

text \<open>\<open>x >= c\<close> for a float constant \<open>c\<close>.\<close>

definition num_ge :: "pynum \<Rightarrow> real \<Rightarrow> bool" where
  "num_ge x c = (case x of
                   PInt n \<Rightarrow> c \<le> real_of_int n
                 | PFloat f \<Rightarrow> float_ge f (Finite c))"

text \<open>\<open>x * 2\<close>.\<close>

definition num_times2 :: "pynum \<Rightarrow> pynum" where
  "num_times2 x = (case x of
                     PInt n \<Rightarrow> PInt (n * 2)
                   | PFloat (Finite r) \<Rightarrow> PFloat (to_float (r * 2))
                   | PFloat f \<Rightarrow> PFloat f)"

text \<open>
  \<open>int(x)\<close>: a float is truncated toward zero; an infinity raises \<open>OverflowError\<close> and
  \<open>nan\<close> raises \<open>ValueError\<close>.
\<close>

definition trunc_int :: "real \<Rightarrow> int" where
  "trunc_int r = (if 0 \<le> r then \<lfloor>r\<rfloor> else \<lceil>r\<rceil>)"

definition py_int :: "pynum \<Rightarrow> py_error + int" where
  "py_int x = (case x of
                 PInt n \<Rightarrow> Inr n
               | PFloat (Finite r) \<Rightarrow> Inr (trunc_int r)
               | PFloat NaN \<Rightarrow> Inl ValueError
               | PFloat _ \<Rightarrow> Inl OverflowError)"

text \<open>
  The thresholds of the overall rating, shared by both copies of the fallback.
\<close>

definition rating_label :: "pynum \<Rightarrow> string" where
  "rating_label rating =
     (if num_ge rating 4.5 then ''Excellent''
      else if num_ge rating 4.0 then ''Very Good''
      else if num_ge rating 3.5 then ''Good''
      else if num_ge rating 3.0 then ''Fair''
      else ''Poor'')"

text \<open>The dictionary \<open>price_descriptions\<close> of the fallback, read at an integer key.\<close>

definition price_descriptions :: "int \<Rightarrow> string option" where
  "price_descriptions k =
     (if k = 1 then Some ''budget-friendly''
      else if k = 2 then Some ''moderately priced''
      else if k = 3 then Some ''upscale''
      else if k = 4 then Some ''fine dining''
      else None)"

definition price_descriptions_get :: "int \<Rightarrow> string" where
  "price_descriptions_get k =
     (case price_descriptions k of None \<Rightarrow> ''moderately priced'' | Some s \<Rightarrow> s)"

subsection \<open>\<open>create_fallback_analysis\<close> of \<open>ai_analysis_service.py\<close>\<close>

text \<open>
  \<open>price_descriptions.get(price_level, "moderately priced")\<close> with any value as the key:
  a list or a dictionary is not hashable and raises \<open>TypeError\<close>; a bool or a float
  equal to an integer key finds that key; every other value gets the default.
\<close>

definition price_desc_of :: "json \<Rightarrow> py_error + string" where
  "price_desc_of price_level =
     (case price_level of
        JList _ \<Rightarrow> Inl TypeError
      | JObj _ \<Rightarrow> Inl TypeError
      | _ \<Rightarrow> (case as_num price_level of
                 Some (PInt n) \<Rightarrow> Inr (price_descriptions_get n)
               | Some (PFloat (Finite r)) \<Rightarrow>
                   if r = real_of_int \<lfloor>r\<rfloor> then Inr (price_descriptions_get \<lfloor>r\<rfloor>)
                   else Inr ''moderately priced''
               | _ \<Rightarrow> Inr ''moderately priced''))"

text \<open>
  The parameter \<open>fmt\<close> is the text Python puts for a value in an f-string
  (\<open>format(v, "")\<close>); it is a built-in of the language and is left open.
\<close>

definition create_fallback_analysis ::
  "(json \<Rightarrow> string) \<Rightarrow> dict \<Rightarrow> py_error + RestaurantAnalysis" where
  "create_fallback_analysis fmt restaurant_data =
     (let rating = dict_get restaurant_data ''rating'' (JInt 0);
          total_ratings = dict_get restaurant_data ''total_ratings'' (JInt 0);
          price_level = dict_get restaurant_data ''price_level'' (JInt 2)
      in case as_num rating of
           None \<Rightarrow> Inl TypeError
         | Some r \<Rightarrow>
            (case price_desc_of price_level of
               Inl e \<Rightarrow> Inl e
             | Inr price_desc \<Rightarrow>
                (case py_int (num_times2 r) of
                   Inl e \<Rightarrow> Inl e
                 | Inr score \<Rightarrow>
                     Inr \<lparr> overall_rating = rating_label r,
                           overall_summary = ''This '' @ price_desc @ '' restaurant has a ''
                             @ fmt rating @ ''/5 star rating based on '' @ fmt total_ratings
                             @ '' reviews.'',
                           food_quality = [(''score'', JInt score),
                                           (''highlights'', JStr ''Based on customer ratings''),
                                           (''concerns'', JStr ''Limited analysis available'')],
                           service_quality = [(''score'', JInt score),
                                              (''highlights'', JStr ''Based on overall ratings''),
                                              (''concerns'', JStr ''No specific service data'')],
                           atmosphere = [(''score'', JInt score),
                                         (''highlights'', JStr ''Customer-rated experience''),
                                         (''concerns'', JStr ''No detailed atmosphere data'')],
                           value_for_money = [(''score'', JInt 7),
                                              (''assessment'', JStr (''Appears to offer good value in the ''
                                                 @ price_desc @ '' category''))],
                           key_highlights = [fmt rating @ ''/5 star rating'',
                                             fmt total_ratings @ '' customer reviews'',
                                             price_desc @ '' pricing''],
                           potential_concerns = [''Limited analysis without detailed reviews''],
                           recommendation = ''Consider visiting if you enjoy '' @ price_desc
                             @ '' dining options'',
                           best_for = [''General dining''],
                           price_range_assessment = ''Pricing appears '' @ price_desc
                             @ '' based on Google data'',
                           confidence_score = 0.3 \<rparr>)))"

subsection \<open>\<open>create_fallback_analysis\<close> of \<open>backend/ai_analysis_service.py\<close>\<close>

text \<open>A string rating is converted with \<open>float\<close>; if that raises \<open>ValueError\<close> it is 0.\<close>

definition backend_rating :: "json \<Rightarrow> json" where
  "backend_rating rating =
     (case rating of
        JStr s \<Rightarrow> (case float_of_string s of Inr f \<Rightarrow> JFloat f | Inl _ \<Rightarrow> JInt 0)
      | _ \<Rightarrow> rating)"

text \<open>
  The price description of the backend copy: a digit string is converted with \<open>int\<close>
  and looked up, any other string is lower-cased and passed through, an \<open>int\<close> (a bool
  is one) is looked up, and everything else is \<open>moderately priced\<close>.
\<close>

definition backend_price_desc_of :: "json \<Rightarrow> py_error + string" where
  "backend_price_desc_of price_level =
     (case price_level of
        JStr s \<Rightarrow> if py_isdigit s
                  then (case int_of_digit_string s of
                          Inl e \<Rightarrow> Inl e
                        | Inr n \<Rightarrow> Inr (price_descriptions_get n))
                  else Inr (py_lower s)
      | JInt n \<Rightarrow> Inr (price_descriptions_get n)
      | JBool b \<Rightarrow> Inr (price_descriptions_get (if b then 1 else 0))
      | _ \<Rightarrow> Inr ''moderately priced'')"

definition backend_create_fallback_analysis ::
  "(json \<Rightarrow> string) \<Rightarrow> dict \<Rightarrow> py_error + RestaurantAnalysis" where
  "backend_create_fallback_analysis fmt restaurant_data =
     (let rating = backend_rating (dict_get restaurant_data ''rating'' (JInt 0));
          total_ratings = dict_get restaurant_data ''total_ratings'' (JInt 0);
          price_level = dict_get restaurant_data ''price_level'' (JInt 2)
      in case as_num rating of
           None \<Rightarrow> Inl TypeError
         | Some r \<Rightarrow>
            (case backend_price_desc_of price_level of
               Inl e \<Rightarrow> Inl e
             | Inr price_desc \<Rightarrow>
                (case py_int (num_times2 r) of
                   Inl e \<Rightarrow> Inl e
                 | Inr score \<Rightarrow>
                     Inr \<lparr> overall_rating = rating_label r,
                           overall_summary = ''This '' @ price_desc @ '' restaurant has a ''
                             @ fmt rating @ ''/5 star rating based on '' @ fmt total_ratings
                             @ '' reviews.'',
                           food_quality = [(''score'', JStr (str_int score)),
                                           (''highlights'', JStr ''Based on customer ratings''),
                                           (''concerns'', JStr ''Limited analysis available'')],
                           service_quality = [(''score'', JStr (str_int score)),
                                              (''highlights'', JStr ''Based on overall ratings''),
                                              (''concerns'', JStr ''No specific service data'')],
                           atmosphere = [(''score'', JStr (str_int score)),
                                         (''highlights'', JStr ''Customer-rated experience''),
                                         (''concerns'', JStr ''No detailed atmosphere data'')],
                           value_for_money = [(''score'', JStr ''7''),
                                              (''assessment'', JStr (''Appears to offer good value in the ''
                                                 @ price_desc @ '' category''))],
                           key_highlights = [fmt rating @ ''/5 star rating'',
                                             fmt total_ratings @ '' customer reviews'',
                                             price_desc @ '' pricing''],
                           potential_concerns = [''Limited analysis without detailed reviews''],
                           recommendation = ''Consider visiting if you enjoy '' @ price_desc
                             @ '' dining options'',
                           best_for = [''General dining''],
                           price_range_assessment = ''Pricing appears '' @ price_desc
                             @ '' based on Google data'',
                           confidence_score = 0.3 \<rparr>)))"

subsection \<open>Validation of the model's answer\<close>

text \<open>\<open>max(0.0, min(1.0, confidence))\<close>.\<close>

definition clamp_confidence :: "pyfloat \<Rightarrow> pyfloat" where
  "clamp_confidence confidence = py_max (Finite 0) (py_min (Finite 1) confidence)"

text \<open>
  The first block of \<open>_validate_analysis_dict\<close>. Only \<open>ValueError\<close> and \<open>TypeError\<close> are
  caught; any other exception of \<open>float\<close> leaves the function.
\<close>

definition validate_confidence :: "dict \<Rightarrow> py_error + dict" where
  "validate_confidence analysis_dict =
     (case map_of analysis_dict ''confidence_score'' of
        None \<Rightarrow> Inr analysis_dict
      | Some v \<Rightarrow>
          (case py_float v of
             Inr confidence \<Rightarrow>
               Inr (AList.update ''confidence_score'' (JFloat (clamp_confidence confidence))
                      analysis_dict)
           | Inl e \<Rightarrow>
               if e = ValueError \<or> e = TypeError
               then Inr (AList.update ''confidence_score'' (JFloat (Finite 0.5)) analysis_dict)
               else Inl e))"

definition string_fields :: "string list" where
  "string_fields = [''overall_rating'', ''overall_summary'', ''recommendation'',
                    ''price_range_assessment'']"

definition list_fields :: "string list" where
  "list_fields = [''key_highlights'', ''potential_concerns'', ''best_for'']"

definition dict_fields :: "string list" where
  "dict_fields = [''food_quality'', ''service_quality'', ''atmosphere'', ''value_for_money'']"

definition default_block :: dict where
  "default_block = [(''score'', JStr ''5''),
                    (''highlights'', JStr ''Not analyzed''),
                    (''concerns'', JStr ''No data available'')]"

definition ensure_str :: "string \<Rightarrow> dict \<Rightarrow> dict" where
  "ensure_str field analysis_dict =
     (case map_of analysis_dict field of
        Some (JStr _) \<Rightarrow> analysis_dict
      | _ \<Rightarrow> AList.update field (JStr ''Not available'') analysis_dict)"

definition ensure_list :: "string \<Rightarrow> dict \<Rightarrow> dict" where
  "ensure_list field analysis_dict =
     (case map_of analysis_dict field of
        Some (JList _) \<Rightarrow> analysis_dict
      | _ \<Rightarrow> AList.update field (JList []) analysis_dict)"

definition ensure_dict :: "string \<Rightarrow> dict \<Rightarrow> dict" where
  "ensure_dict field analysis_dict =
     (case map_of analysis_dict field of
        Some (JObj _) \<Rightarrow> analysis_dict
      | _ \<Rightarrow> AList.update field (JObj default_block) analysis_dict)"

text \<open>
  \<open>_validate_analysis_dict\<close> changes its argument in place; the model returns the new
  dictionary, or the exception that left the function.
\<close>

definition validate_analysis_dict :: "dict \<Rightarrow> py_error + dict" where
  "validate_analysis_dict analysis_dict =
     (case validate_confidence analysis_dict of
        Inl e \<Rightarrow> Inl e
      | Inr d1 \<Rightarrow>
          Inr (fold ensure_dict dict_fields
                 (fold ensure_list list_fields
                    (fold ensure_str string_fields d1))))"

text \<open>
  The constructor call \<open>RestaurantAnalysis(**analysis_dict)\<close> of the backend model: every
  field is required, a \<open>str\<close> field takes a string, a \<open>List[str]\<close> field a list of
  strings, a \<open>Dict[str, Any]\<close> field any dictionary, and \<open>confidence_score\<close> a value
  that converts to a float between 0 and 1 (after the validation it is such a float or
  missing). Anything else is a \<open>ValidationError\<close>. Keys that are not fields are
  ignored.
\<close>

definition field_str :: "dict \<Rightarrow> string \<Rightarrow> string option" where
  "field_str d k = (case map_of d k of Some (JStr s) \<Rightarrow> Some s | _ \<Rightarrow> None)"

definition item_str :: "json \<Rightarrow> string option" where
  "item_str v = (case v of JStr s \<Rightarrow> Some s | _ \<Rightarrow> None)"

definition field_str_list :: "dict \<Rightarrow> string \<Rightarrow> string list option" where
  "field_str_list d k =
     (case map_of d k of
        Some (JList xs) \<Rightarrow> if list_all (\<lambda>x. item_str x \<noteq> None) xs
                           then Some (map (\<lambda>x. the (item_str x)) xs) else None
      | _ \<Rightarrow> None)"

definition field_dict :: "dict \<Rightarrow> string \<Rightarrow> dict option" where
  "field_dict d k = (case map_of d k of Some (JObj b) \<Rightarrow> Some b | _ \<Rightarrow> None)"

definition field_confidence :: "dict \<Rightarrow> real option" where
  "field_confidence d =
     (case map_of d ''confidence_score'' of
        None \<Rightarrow> None
      | Some v \<Rightarrow> (case py_float v of
                     Inr (Finite r) \<Rightarrow> if 0 \<le> r \<and> r \<le> 1 then Some r else None
                   | _ \<Rightarrow> None))"

definition RestaurantAnalysis_init :: "dict \<Rightarrow> py_error + RestaurantAnalysis" where
  "RestaurantAnalysis_init d =
     (case do {
         a1 \<leftarrow> field_str d ''overall_rating'';
         a2 \<leftarrow> field_str d ''overall_summary'';
         a3 \<leftarrow> field_dict d ''food_quality'';
         a4 \<leftarrow> field_dict d ''service_quality'';
         a5 \<leftarrow> field_dict d ''atmosphere'';
         a6 \<leftarrow> field_dict d ''value_for_money'';
         a7 \<leftarrow> field_str_list d ''key_highlights'';
         a8 \<leftarrow> field_str_list d ''potential_concerns'';
         a9 \<leftarrow> field_str d ''recommendation'';
         a10 \<leftarrow> field_str_list d ''best_for'';
         a11 \<leftarrow> field_str d ''price_range_assessment'';
         a12 \<leftarrow> field_confidence d;
         Some \<lparr> overall_rating = a1, overall_summary = a2, food_quality = a3,
                 service_quality = a4, atmosphere = a5, value_for_money = a6,
                 key_highlights = a7, potential_concerns = a8, recommendation = a9,
                 best_for = a10, price_range_assessment = a11, confidence_score = a12 \<rparr>
       } of
        None \<Rightarrow> Inl ValidationError
      | Some a \<Rightarrow> Inr a)"

text \<open>
  The two statements that follow \<open>json.loads\<close> in \<open>analyze_restaurant\<close>: validate the
  decoded document, then build the model. A document that is not a dictionary makes
  \<open>_validate_analysis_dict\<close> raise \<open>TypeError\<close> (membership test or item assignment on a
  value that has none).
\<close>

definition analysis_from_json :: "json \<Rightarrow> py_error + RestaurantAnalysis" where
  "analysis_from_json v =
     (case v of
        JObj analysis_dict \<Rightarrow>
          (case validate_analysis_dict analysis_dict of
             Inl e \<Rightarrow> Inl e
           | Inr d \<Rightarrow> RestaurantAnalysis_init d)
      | _ \<Rightarrow> Inl TypeError)"

subsection \<open>\<open>analyze_restaurant\<close> and \<open>analyze_single_restaurant\<close> of the backend\<close>

text \<open>\<open>s.find(c)\<close> and \<open>s.rfind(c)\<close> for one character, and the slice \<open>s[i:j]\<close>
  for indices that are not negative.\<close>

definition py_find :: "char \<Rightarrow> string \<Rightarrow> int" where
  "py_find c s = (if c \<in> set s then int (length (takeWhile (\<lambda>x. x \<noteq> c) s)) else - 1)"

definition py_rfind :: "char \<Rightarrow> string \<Rightarrow> int" where
  "py_rfind c s = (if c \<in> set s
                   then int (length s) - 1 - int (length (takeWhile (\<lambda>x. x \<noteq> c) (rev s)))
                   else - 1)"

definition py_slice :: "string \<Rightarrow> int \<Rightarrow> int \<Rightarrow> string" where
  "py_slice s i j = drop (nat i) (take (nat j) s)"

text \<open>Removing the markdown fence: \<open>text[7:]\<close> after the opening, \<open>text[:-3]\<close> before the
  closing.\<close>

definition code_fence_open :: string where
  "code_fence_open = replicate 3 (char_of (96::nat)) @ ''json''"

definition code_fence_close :: string where
  "code_fence_close = replicate 3 (char_of (96::nat))"

definition strip_code_fence :: "string \<Rightarrow> string" where
  "strip_code_fence analysis_text =
     (let t1 = (if take 7 analysis_text = code_fence_open
                then drop 7 analysis_text else analysis_text)
      in if 3 \<le> length t1 \<and> drop (length t1 - 3) t1 = code_fence_close
         then take (length t1 - 3) t1 else t1)"

text \<open>
  What the call of the language model gave: an exception (also one of building the
  prompt, which happens in the same \<open>try\<close>), or the content of the first choice.
\<close>

datatype completion = CallRaises | Content "string option"

text \<open>
  \<open>analyze_restaurant\<close>. \<open>has_client\<close> says whether an API key was configured;
  \<open>json_loads\<close> is the built-in decoder, \<open>None\<close> standing for \<open>JSONDecodeError\<close>. Every
  exception other than \<open>JSONDecodeError\<close> reaches the outer handler, which returns
  \<open>None\<close>.
\<close>

definition analyze_restaurant ::
  "bool \<Rightarrow> completion \<Rightarrow> (string \<Rightarrow> json option) \<Rightarrow> RestaurantAnalysis option" where
  "analyze_restaurant has_client response json_loads =
     (if \<not> has_client then None
      else case response of
             CallRaises \<Rightarrow> None
           | Content None \<Rightarrow> None
           | Content (Some content) \<Rightarrow>
               if content = [] then None
               else
                 (let analysis_text = strip_code_fence (py_strip content)
                  in case json_loads analysis_text of
                       Some analysis_dict \<Rightarrow>
                         (case analysis_from_json analysis_dict of
                            Inl _ \<Rightarrow> None
                          | Inr a \<Rightarrow> Some a)
                     | None \<Rightarrow>
                         (let start_idx = py_find CHR ''{'' analysis_text;
                              end_idx = py_rfind CHR ''}'' analysis_text + 1
                          in if start_idx \<noteq> - 1 \<and> end_idx \<noteq> - 1
                             then (case json_loads (py_slice analysis_text start_idx end_idx) of
                                     None \<Rightarrow> None
                                   | Some analysis_dict \<Rightarrow>
                                       (case analysis_from_json analysis_dict of
                                          Inl _ \<Rightarrow> None
                                        | Inr a \<Rightarrow> Some a))
                             else None)))"

definition analyze_single_restaurant ::
  "(json \<Rightarrow> string) \<Rightarrow> bool \<Rightarrow> completion \<Rightarrow> (string \<Rightarrow> json option) \<Rightarrow> dict \<Rightarrow>
   py_error + RestaurantAnalysis" where
  "analyze_single_restaurant fmt has_client response json_loads restaurant_data =
     (case analyze_restaurant has_client response json_loads of
        Some analysis \<Rightarrow> Inr analysis
      | None \<Rightarrow> backend_create_fallback_analysis fmt restaurant_data)"

subsection \<open>Reference notions for the analysis service\<close>

text \<open>
  Python's \<open>round(x)\<close>: the nearest integer, a tie going to the even one. The code does
  not call it; the fallback scores are compared with it.
\<close>

definition py_round :: "real \<Rightarrow> int" where
  "py_round x = (let f = \<lfloor>x\<rfloor>; d = x - real_of_int f
                 in if d < 1 / 2 then f
                    else if 1 / 2 < d then f + 1
                    else if even f then f else f + 1)"

text \<open>
  One formatting function for the examples: \<open>str\<close> of \<open>None\<close>, a bool, an integer and a
  string, and of a float with a terminating decimal expansion, for which Python prints
  the digits of that expansion: in positional notation when the decimal point falls
  within the range that \<open>repr\<close> keeps positional, with an exponent otherwise. The text of
  a list or a dictionary is abbreviated.
\<close>

definition repr_places :: "real \<Rightarrow> nat" where
  "repr_places r =
     (case find (\<lambda>k. r * 10 ^ k = real_of_int \<lfloor>r * 10 ^ k\<rfloor>) [0..<400] of
        Some k \<Rightarrow> k
      | None \<Rightarrow> 400)"

function digits_of :: "int \<Rightarrow> string" where
  "digits_of i = (if i < 10 then [char_of (48 + i)]
                  else digits_of (i div 10) @ [char_of (48 + i mod 10)])"
  by pat_completeness auto
termination
  by (relation "measure nat") auto

definition repr_exponent :: "int \<Rightarrow> string" where
  "repr_exponent e =
     (let es = digits_of \<bar>e\<bar>
      in CHR ''e'' # (if e < 0 then CHR ''-'' else CHR ''+'')
           # (if length es < 2 then CHR ''0'' # es else es))"

definition repr_digits :: "string \<Rightarrow> int \<Rightarrow> string" where
  "repr_digits ds decpt =
     (if - 4 < decpt \<and> decpt \<le> 16 then
        (if decpt \<le> 0 then ''0.'' @ replicate (nat (- decpt)) CHR ''0'' @ ds
         else if int (length ds) \<le> decpt
           then ds @ replicate (nat decpt - length ds) CHR ''0'' @ ''.0''
         else take (nat decpt) ds @ ''.'' @ drop (nat decpt) ds)
      else
        (case ds of
           [] \<Rightarrow> []
         | d # rest \<Rightarrow> d # (if rest = [] then [] else CHR ''.'' # rest) @ repr_exponent (decpt - 1)))"

definition repr_float :: "pyfloat \<Rightarrow> string" where
  "repr_float f =
     (case f of
        NaN \<Rightarrow> ''nan''
      | PosInf \<Rightarrow> ''inf''
      | NegInf \<Rightarrow> ''-inf''
      | Finite r \<Rightarrow>
          if r = 0 then ''0.0''
          else
            (let a = \<bar>r\<bar>;
                 k = repr_places a;
                 all_digits = digits_of \<lfloor>a * 10 ^ k\<rfloor>;
                 ds = rev (dropWhile (\<lambda>c. c = CHR ''0'') (rev all_digits));
                 decpt = int (length all_digits) - int k
             in (if r < 0 then ''-'' else '''') @ repr_digits ds decpt))"

definition py_str :: "json \<Rightarrow> string" where
  "py_str v =
     (case v of
        JNull \<Rightarrow> ''None''
      | JBool b \<Rightarrow> if b then ''True'' else ''False''
      | JInt n \<Rightarrow> str_int n
      | JFloat f \<Rightarrow> repr_float f
      | JStr s \<Rightarrow> s
      | JList _ \<Rightarrow> ''[...]''
      | JObj _ \<Rightarrow> ''{...}'')"

text \<open>
  The relation between the two copies of the fallback: the backend copy writes every
  block score as the decimal string of the integer the other copy stores.
\<close>

definition stringify_score :: "dict \<Rightarrow> dict" where
  "stringify_score block =
     (case map_of block ''score'' of
        Some (JInt n) \<Rightarrow> AList.update ''score'' (JStr (str_int n)) block
      | _ \<Rightarrow> block)"

definition stringify_scores :: "RestaurantAnalysis \<Rightarrow> RestaurantAnalysis" where
  "stringify_scores a =
     a \<lparr> food_quality := stringify_score (food_quality a),
         service_quality := stringify_score (service_quality a),
         atmosphere := stringify_score (atmosphere a),
         value_for_money := stringify_score (value_for_money a) \<rparr>"

text \<open>
  The price levels on which both copies of the fallback compute the same description:
  an integer, a bool, or \<open>None\<close> (also an absent key, which reads as 2).
\<close>

definition plain_price_level :: "json \<Rightarrow> bool" where
  "plain_price_level v = (case v of JNull \<Rightarrow> True | JBool _ \<Rightarrow> True | JInt _ \<Rightarrow> True | _ \<Rightarrow> False)"

definition is_JStr :: "json \<Rightarrow> bool" where
  "is_JStr v = (case v of JStr _ \<Rightarrow> True | _ \<Rightarrow> False)"

text \<open>
  The defaults the validation documents: the value of a field when it has the right
  shape, the default otherwise.
\<close>

definition str_or_default :: "dict \<Rightarrow> string \<Rightarrow> string" where
  "str_or_default d k = (case map_of d k of Some (JStr s) \<Rightarrow> s | _ \<Rightarrow> ''Not available'')"

definition list_or_default :: "dict \<Rightarrow> string \<Rightarrow> json list" where
  "list_or_default d k = (case map_of d k of Some (JList xs) \<Rightarrow> xs | _ \<Rightarrow> [])"

definition block_or_default :: "dict \<Rightarrow> string \<Rightarrow> dict" where
  "block_or_default d k = (case map_of d k of Some (JObj b) \<Rightarrow> b | _ \<Rightarrow> default_block)"

section \<open>Restaurant search\<close>

definition METERS_PER_MILE :: real where
  "METERS_PER_MILE = 1609.34"

definition MAX_RADIUS_MILES :: real where
  "MAX_RADIUS_MILES = 10"

definition GOOGLE_PLACES_BASE_URL :: string where
  "GOOGLE_PLACES_BASE_URL = ''https://maps.googleapis.com/maps/api/place''"

text \<open>
  A place record of the nearby-search API, as far as the code reads it. \<open>pl_lat\<close> and
  \<open>pl_lng\<close> are \<open>geometry.location.lat\<close> and \<open>.lng\<close> (\<open>None\<close> when any of the keys
  is missing); a photo is its \<open>photo_reference\<close>.
\<close>

record place =
  pl_place_id :: "string option"
  pl_name :: "string option"
  pl_vicinity :: "string option"
  pl_lat :: "real option"
  pl_lng :: "real option"
  pl_rating :: "real option"
  pl_user_ratings_total :: "int option"
  pl_price_level :: "int option"
  pl_types :: "string list option"
  pl_photos :: "string option list option"

record places_data =
  pd_status :: "string option"
  pd_results :: "place list option"
  pd_next_page_token :: "string option"

text \<open>The pydantic models \<open>Restaurant\<close> and \<open>RestaurantSearchResponse\<close>.\<close>

record Restaurant =
  place_id :: string
  name :: string
  address :: string
  latitude :: real
  longitude :: real
  rating :: "real option"
  total_ratings :: "int option"
  price_level :: "int option"
  cuisine_types :: "string list"
  phone :: "string option"
  website :: "string option"
  opening_hours :: "dict option"
  photos :: "string list"
  distance_miles :: "real option"

record RestaurantSearchResponse =
  restaurants :: "Restaurant list"
  total_found :: int
  search_location :: "(string \<times> real) list"
  radius_miles :: real
  timestamp :: real

datatype HTTPException = HTTPException int string

text \<open>
  \<open>round(x, 2)\<close>: the nearest multiple of 0.01, a tie going to the even multiple.
\<close>

definition py_round2 :: "real \<Rightarrow> real" where
  "py_round2 x = real_of_int (py_round (x * 100)) / 100"

definition opt_default :: "'a option \<Rightarrow> 'a \<Rightarrow> 'a" where
  "opt_default v dflt = (case v of None \<Rightarrow> dflt | Some x \<Rightarrow> x)"

text \<open>
  \<open>format_restaurant_data\<close>. The only raise is the one of \<open>calculate_distance\<close>. At most
  three photos are read, and one without a reference (or with an empty one) is skipped.
\<close>

definition photo_url :: "string \<Rightarrow> string \<Rightarrow> string" where
  "photo_url api_key photo_ref =
     GOOGLE_PLACES_BASE_URL @ ''/photo?maxwidth=400&photoreference='' @ photo_ref
       @ ''&key='' @ api_key"

definition format_restaurant_data ::
  "string \<Rightarrow> place \<Rightarrow> real \<Rightarrow> real \<Rightarrow> py_error + Restaurant" where
  "format_restaurant_data api_key place_data user_lat user_lng =
     (let restaurant_lat = opt_default (pl_lat place_data) 0;
          restaurant_lng = opt_default (pl_lng place_data) 0
      in case calculate_distance user_lat user_lng restaurant_lat restaurant_lng of
           Inl e \<Rightarrow> Inl e
         | Inr distance \<Rightarrow>
             Inr \<lparr> place_id = opt_default (pl_place_id place_data) '''',
                   name = opt_default (pl_name place_data) ''Unknown'',
                   address = opt_default (pl_vicinity place_data) ''Address not available'',
                   latitude = restaurant_lat,
                   longitude = restaurant_lng,
                   rating = pl_rating place_data,
                   total_ratings = pl_user_ratings_total place_data,
                   price_level = pl_price_level place_data,
                   cuisine_types = opt_default (pl_types place_data) [],
                   phone = None,
                   website = None,
                   opening_hours = None,
                   photos = map (\<lambda>ref. photo_url api_key (the ref))
                              (filter truthy_str (take 3 (opt_default (pl_photos place_data) []))),
                   distance_miles = Some (py_round2 distance) \<rparr>)"

text \<open>
  The loop over the results of one page: it stops when the list has reached
  \<open>max_results\<close>, and appends a place whose rating (0 when absent) is at least
  \<open>min_rating\<close>.
\<close>

fun process_places ::
  "string \<Rightarrow> real \<Rightarrow> real \<Rightarrow> real \<Rightarrow> int \<Rightarrow> place list \<Rightarrow> Restaurant list \<Rightarrow>
   py_error + Restaurant list" where
  "process_places api_key lat lng min_rating max_results [] rs = Inr rs"
| "process_places api_key lat lng min_rating max_results (p # ps) rs =
     (if max_results \<le> int (length rs) then Inr rs
      else if min_rating \<le> opt_default (pl_rating p) 0
      then (case format_restaurant_data api_key p lat lng of
              Inl e \<Rightarrow> Inl e
            | Inr restaurant \<Rightarrow>
                process_places api_key lat lng min_rating max_results ps (rs @ [restaurant]))
      else process_places api_key lat lng min_rating max_results ps rs)"

text \<open>
  The requests of the search, and the remote API: the answer to the \<open>n\<close>-th request of
  one search (counted from 0).
\<close>

datatype search_request = NearbySearch real real int | NextPage string

type_synonym places_api = "nat \<Rightarrow> search_request \<Rightarrow> places_data http_result"

text \<open>What the body of the \<open>try\<close> block raised.\<close>

datatype raised =
    Raised_HTTPError
  | Raised_HTTPException int string
  | Raised_Exception

text \<open>
  The \<open>while\<close> loop over the continuation pages. The upstream may hand out tokens for
  ever, so the loop is a partial function: \<open>None\<close> is a search that does not return.
  The wait before each request is not modelled.
\<close>

partial_function (option) fetch_next_pages ::
  "places_api \<Rightarrow> string \<Rightarrow> real \<Rightarrow> real \<Rightarrow> real \<Rightarrow> int \<Rightarrow> nat \<Rightarrow> string option \<Rightarrow>
   Restaurant list \<Rightarrow> (raised + Restaurant list) option" where
  "fetch_next_pages client api_key lat lng min_rating max_results n next_page_token rs =
     (if truthy_str next_page_token \<and> int (length rs) < max_results then
        (case client n (NextPage (the next_page_token)) of
           HTTPFailure \<Rightarrow> Some (Inl Raised_HTTPError)
         | HTTPBodyInvalid \<Rightarrow> Some (Inl Raised_Exception)
         | HTTPBody data \<Rightarrow>
             if pd_status data \<noteq> Some ''OK'' then Some (Inr rs)
             else (case process_places api_key lat lng min_rating max_results
                          (opt_default (pd_results data) []) rs of
                     Inl e \<Rightarrow> Some (Inl Raised_Exception)
                   | Inr rs' \<Rightarrow>
                       fetch_next_pages client api_key lat lng min_rating max_results (Suc n)
                         (pd_next_page_token data) rs'))
      else Some (Inr rs))"

text \<open>
  The body of the \<open>try\<close> block: the first request, then the continuation pages. The
  \<open>HTTPException\<close> with status 400 for a first page that is not \<open>OK\<close> is raised inside
  the block.
\<close>

definition search_pages ::
  "places_api \<Rightarrow> string \<Rightarrow> real \<Rightarrow> real \<Rightarrow> int \<Rightarrow> real \<Rightarrow> int \<Rightarrow>
   (raised + Restaurant list) option" where
  "search_pages client api_key lat lng radius_meters min_rating max_results =
     (case client 0 (NearbySearch lat lng radius_meters) of
        HTTPFailure \<Rightarrow> Some (Inl Raised_HTTPError)
      | HTTPBodyInvalid \<Rightarrow> Some (Inl Raised_Exception)
      | HTTPBody data \<Rightarrow>
          if pd_status data \<noteq> Some ''OK''
          then Some (Inl (Raised_HTTPException 400
                 (''Google Places API error: '' @ opt_default (pd_status data) ''Unknown error'')))
          else (case process_places api_key lat lng min_rating max_results
                       (opt_default (pd_results data) []) [] of
                  Inl e \<Rightarrow> Some (Inl Raised_Exception)
                | Inr rs \<Rightarrow>
                    fetch_next_pages client api_key lat lng min_rating max_results 1
                      (pd_next_page_token data) rs))"

text \<open>
  The sort key \<open>(r.distance_miles or 999, -(r.rating or 0))\<close>: \<open>x or d\<close> is \<open>d\<close> when \<open>x\<close>
  is \<open>None\<close> and also when \<open>x\<close> is zero.
\<close>

definition py_or :: "real option \<Rightarrow> real \<Rightarrow> real" where
  "py_or x dflt = (case x of None \<Rightarrow> dflt | Some v \<Rightarrow> if v = 0 then dflt else v)"

definition sort_key :: "Restaurant \<Rightarrow> real \<times> real" where
  "sort_key r = (py_or (distance_miles r) 999, - py_or (rating r) 0)"

text \<open>Tuples compare lexicographically.\<close>

definition key_lt :: "real \<times> real \<Rightarrow> real \<times> real \<Rightarrow> bool" where
  "key_lt a b = (fst a < fst b \<or> (fst a = fst b \<and> snd a < snd b))"

text \<open>
  \<open>list.sort\<close> is stable and compares keys with \<open><\<close> only; its result is the one of the
  stable insertion sort.
\<close>

fun insort_restaurant :: "Restaurant \<Rightarrow> Restaurant list \<Rightarrow> Restaurant list" where
  "insort_restaurant x [] = [x]"
| "insort_restaurant x (y # ys) =
     (if key_lt (sort_key y) (sort_key x) then y # insort_restaurant x ys else x # y # ys)"

definition sort_restaurants :: "Restaurant list \<Rightarrow> Restaurant list" where
  "sort_restaurants rs = foldr insort_restaurant rs []"

text \<open>
  \<open>find_restaurants\<close>. \<open>GOOGLE_PLACES_API_KEY\<close> is the module's global, \<open>now\<close> the clock.
  Every exception of the \<open>try\<close> body becomes an \<open>HTTPException\<close> with status 500: the
  handler for \<open>httpx.HTTPError\<close> comes first, the one for \<open>Exception\<close> takes the rest,
  the \<open>HTTPException\<close> with status 400 included.
\<close>

definition find_restaurants ::
  "string option \<Rightarrow> places_api \<Rightarrow> real \<Rightarrow> real \<Rightarrow> real \<Rightarrow> real \<Rightarrow> real \<Rightarrow> int \<Rightarrow>
   (HTTPException + RestaurantSearchResponse) option" where
  "find_restaurants GOOGLE_PLACES_API_KEY client now lat lng radius min_rating max_results =
     (if \<not> truthy_str GOOGLE_PLACES_API_KEY
      then Some (Inl (HTTPException 500 ''Google Places API key not configured''))
      else
        (let radius_meters = trunc_int (radius * METERS_PER_MILE)
         in case search_pages client (the GOOGLE_PLACES_API_KEY) lat lng radius_meters
                   min_rating max_results of
              None \<Rightarrow> None
            | Some (Inl Raised_HTTPError) \<Rightarrow>
                Some (Inl (HTTPException 500 ''Failed to fetch restaurant data''))
            | Some (Inl _) \<Rightarrow> Some (Inl (HTTPException 500 ''Internal server error''))
            | Some (Inr rs) \<Rightarrow>
                Some (Inr \<lparr> restaurants = sort_restaurants rs,
                            total_found = int (length (sort_restaurants rs)),
                            search_location = [(''lat'', lat), (''lng'', lng)],
                            radius_miles = radius,
                            timestamp = now \<rparr>)))"

subsection \<open>Reference notions and example upstreams for the search\<close>

text \<open>A place that the upstream hands out in some page.\<close>

definition served :: "places_api \<Rightarrow> place \<Rightarrow> bool" where
  "served client p = (\<exists>n req data ps. client n req = HTTPBody data
                        \<and> pd_results data = Some ps \<and> p \<in> set ps)"

text \<open>The order the specification asks of two adjacent results.\<close>

definition adjacent_ok :: "Restaurant \<Rightarrow> Restaurant \<Rightarrow> bool" where
  "adjacent_ok r1 r2 =
     (opt_default (distance_miles r1) 0 < opt_default (distance_miles r2) 0
      \<or> (opt_default (distance_miles r1) 0 = opt_default (distance_miles r2) 0
          \<and> opt_default (rating r2) 0 \<le> opt_default (rating r1) 0))"

fun adjacent_all :: "Restaurant list \<Rightarrow> bool" where
  "adjacent_all (r1 # r2 # rs) = (adjacent_ok r1 r2 \<and> adjacent_all (r2 # rs))"
| "adjacent_all _ = True"

definition place_at :: "string \<Rightarrow> real \<Rightarrow> real \<Rightarrow> real \<Rightarrow> place" where
  "place_at ident lat lng stars =
     \<lparr> pl_place_id = Some ident, pl_name = Some ident, pl_vicinity = None,
       pl_lat = Some lat, pl_lng = Some lng, pl_rating = Some stars,
       pl_user_ratings_total = None, pl_price_level = None, pl_types = None,
       pl_photos = None \<rparr>"

text \<open>One page with a single place one degree of longitude east of the origin.\<close>

definition far_place_api :: places_api where
  "far_place_api n req =
     HTTPBody \<lparr> pd_status = Some ''OK'',
                pd_results = Some [place_at ''far'' 0 1 4],
                pd_next_page_token = None \<rparr>"

text \<open>
  One page with a place at the origin of the search itself and a place a tenth of a
  degree east of it.
\<close>

definition doorstep_api :: places_api where
  "doorstep_api n req =
     HTTPBody \<lparr> pd_status = Some ''OK'',
                pd_results = Some [place_at ''here'' 0 0 4, place_at ''near'' 0 (1 / 10) 4],
                pd_next_page_token = None \<rparr>"

text \<open>
  A first page with one place and a token, then a continuation request that fails in
  the transport, or that answers with a status other than \<open>OK\<close>.
\<close>

definition first_page_with_token :: places_data where
  "first_page_with_token =
     \<lparr> pd_status = Some ''OK'',
       pd_results = Some [place_at ''here'' 0 0 4],
       pd_next_page_token = Some ''token'' \<rparr>"

definition failing_continuation_api :: places_api where
  "failing_continuation_api n req =
     (case req of
        NearbySearch _ _ _ \<Rightarrow> HTTPBody first_page_with_token
      | NextPage _ \<Rightarrow> HTTPFailure)"

definition denied_continuation_api :: places_api where
  "denied_continuation_api n req =
     (case req of
        NearbySearch _ _ _ \<Rightarrow> HTTPBody first_page_with_token
      | NextPage _ \<Rightarrow> HTTPBody \<lparr> pd_status = Some ''INVALID_REQUEST'',
                                  pd_results = None,
                                  pd_next_page_token = None \<rparr>)"

text \<open>
  A restaurant built from a place that the upstream handed out and that passes the
  rating filter.
\<close>

definition from_served ::
  "places_api \<Rightarrow> string \<Rightarrow> real \<Rightarrow> real \<Rightarrow> real \<Rightarrow> Restaurant \<Rightarrow> bool" where
  "from_served client k lat lng mr r =
     (\<exists>p. served client p \<and> mr \<le> opt_default (pl_rating p) 0
          \<and> format_restaurant_data k p lat lng = Inr r)"

text \<open>The order the sort establishes: no later key is smaller than an earlier one.\<close>

definition key_le :: "Restaurant \<Rightarrow> Restaurant \<Rightarrow> bool" where
  "key_le a b = (\<not> key_lt (sort_key b) (sort_key a))"

text \<open>
  The states in which the search stands at the head of the \<open>while\<close> loop: the number of
  the next request, the page token, and the restaurants accumulated so far. The first
  page was \<open>OK\<close>, and so was every continuation page read since.
\<close>

inductive loop_reaches ::
  "places_api \<Rightarrow> string \<Rightarrow> real \<Rightarrow> real \<Rightarrow> int \<Rightarrow> real \<Rightarrow> int \<Rightarrow>
   nat \<Rightarrow> string option \<Rightarrow> Restaurant list \<Rightarrow> bool"
  for client api_key lat lng radius_meters min_rating max_results where
    first_page:
      "client 0 (NearbySearch lat lng radius_meters) = HTTPBody data \<Longrightarrow>
       pd_status data = Some ''OK'' \<Longrightarrow>
       process_places api_key lat lng min_rating max_results
         (opt_default (pd_results data) []) [] = Inr rs \<Longrightarrow>
       loop_reaches client api_key lat lng radius_meters min_rating max_results
         1 (pd_next_page_token data) rs"
  | next_page:
      "loop_reaches client api_key lat lng radius_meters min_rating max_results n tok rs \<Longrightarrow>
       truthy_str tok \<Longrightarrow> int (length rs) < max_results \<Longrightarrow>
       client n (NextPage (the tok)) = HTTPBody data \<Longrightarrow>
       pd_status data = Some ''OK'' \<Longrightarrow>
       process_places api_key lat lng min_rating max_results
         (opt_default (pd_results data) []) rs = Inr rs' \<Longrightarrow>
       loop_reaches client api_key lat lng radius_meters min_rating max_results
         (Suc n) (pd_next_page_token data) rs'"

code_pred loop_reaches .

text \<open>
  The rounded distances from the origin to the points one degree and a tenth of a degree
  east of it on the equator (about 69.1 and 6.91 miles).
\<close>

definition far_distance :: real where
  "far_distance = py_round2 (3959 * (1 * pi / 180))"

definition near_distance :: real where
  "near_distance = py_round2 (3959 * (1 / 10 * pi / 180))"

text \<open>The restaurants that \<open>format_restaurant_data\<close> builds from the example places.\<close>

definition example_restaurant :: "string \<Rightarrow> real \<Rightarrow> real \<Rightarrow> Restaurant" where
  "example_restaurant ident lng_deg miles =
     \<lparr> place_id = ident, name = ident, address = ''Address not available'',
       latitude = 0, longitude = lng_deg, rating = Some 4, total_ratings = None,
       price_level = None, cuisine_types = [], phone = None, website = None,
       opening_hours = None, photos = [], distance_miles = Some miles \<rparr>"

text \<open>
  An upstream that answers every request with a page of the same two places at the origin
  of the search, both rated 4, and with a token for a further page; and an upstream whose
  every request fails in the transport.
\<close>

definition endless_page :: places_data where
  "endless_page =
     \<lparr> pd_status = Some ''OK'',
       pd_results = Some [place_at ''a'' 0 0 4, place_at ''b'' 0 0 4],
       pd_next_page_token = Some ''more'' \<rparr>"

definition endless_api :: places_api where
  "endless_api n req = HTTPBody endless_page"

definition unavailable_api :: places_api where
  "unavailable_api n req = HTTPFailure"

section \<open>Properties of the geodesy functions\<close>

lemma haversine_a_self: "haversine_a lat lon lat lon = 0"
  by (simp add: haversine_a_def)

lemma sin_half_diff_sq: "(sin ((x - y) / 2))\<^sup>2 = (sin ((y - x) / 2 :: real))\<^sup>2"
proof -
  have "(x - y) / 2 = - ((y - x) / 2)" by argo
  then have "sin ((x - y) / 2) = - sin ((y - x) / 2)"
    by (metis sin_minus)
  then show ?thesis by simp
qed

lemma haversine_a_sym: "haversine_a lat1 lon1 lat2 lon2 = haversine_a lat2 lon2 lat1 lon1"
  unfolding haversine_a_def Let_def
  using sin_half_diff_sq [of "radians lat2" "radians lat1"]
        sin_half_diff_sq [of "radians lon2" "radians lon1"]
  by (simp add: mult.commute)

lemma calculate_distance_self: "calculate_distance lat lon lat lon = Inr 0"
  by (simp add: calculate_distance_def haversine_a_self math_sqrt_def math_asin_def)

lemma calculate_distance_sym:
  "calculate_distance lat1 lon1 lat2 lon2 = calculate_distance lat2 lon2 lat1 lon1"
  by (simp add: calculate_distance_def haversine_a_sym [of lat1 lon1 lat2 lon2])

lemma haversine_a_bounds:
  assumes "-90 \<le> lat1" "lat1 \<le> 90" "-90 \<le> lat2" "lat2 \<le> 90"
  shows "0 \<le> haversine_a lat1 lon1 lat2 lon2 \<and> haversine_a lat1 lon1 lat2 lon2 \<le> 1"
proof -
  define p1 where "p1 = radians lat1"
  define p2 where "p2 = radians lat2"
  define y where "y = (p2 - p1) / 2"
  define s where "s = (sin ((radians lon2 - radians lon1) / 2))\<^sup>2"
  define c where "c = cos p1 * cos p2"
  have scale: "\<And>x. - 90 \<le> x \<Longrightarrow> x \<le> 90 \<Longrightarrow>
      - (pi / 2) \<le> radians x \<and> radians x \<le> pi / 2"
  proof -
    fix x :: real assume x: "- 90 \<le> x" "x \<le> 90"
    have lo: "- 90 * pi \<le> x * pi" using x(1) pi_gt_zero by (intro mult_right_mono) auto
    have hi: "x * pi \<le> 90 * pi" using x(2) pi_gt_zero by (intro mult_right_mono) auto
    show "- (pi / 2) \<le> radians x \<and> radians x \<le> pi / 2"
      unfolding radians_def using lo hi by linarith
  qed
  have r1: "- (pi / 2) \<le> p1" "p1 \<le> pi / 2"
    using scale [OF assms(1,2)] by (simp_all add: p1_def)
  have r2: "- (pi / 2) \<le> p2" "p2 \<le> pi / 2"
    using scale [OF assms(3,4)] by (simp_all add: p2_def)
  have c1: "0 \<le> cos p1" using r1 by (rule cos_ge_zero)
  have c2: "0 \<le> cos p2" using r2 by (rule cos_ge_zero)
  have c0: "0 \<le> c" unfolding c_def using c1 c2 by simp
  have s0: "0 \<le> s" unfolding s_def by simp
  have s1: "s \<le> 1" unfolding s_def by (simp add: sin_squared_eq)
  have a: "haversine_a lat1 lon1 lat2 lon2 = (sin y)\<^sup>2 + c * s"
    by (simp add: haversine_a_def Let_def p1_def p2_def y_def s_def c_def)
  have lo: "0 \<le> (sin y)\<^sup>2 + c * s" using c0 s0 by simp
  have "c * s \<le> c * 1" using s1 c0 by (rule mult_left_mono)
  then have cs: "c * s \<le> c" by simp
  have "cos (2 * y) = 1 - 2 * (sin y)\<^sup>2" by (rule cos_double_sin)
  moreover have "2 * y = p2 - p1" by (simp add: y_def)
  ultimately have "(sin y)\<^sup>2 = (1 - cos (p2 - p1)) / 2" by simp
  also have "cos (p2 - p1) = c + sin p2 * sin p1" by (simp add: cos_diff c_def mult.commute)
  finally have sy: "(sin y)\<^sup>2 = (1 - c - sin p2 * sin p1) / 2" by simp
  have "cos (p2 + p1) = c - sin p2 * sin p1" by (simp add: cos_add c_def mult.commute)
  then have e: "(sin y)\<^sup>2 + c = (1 + cos (p2 + p1)) / 2" using sy by simp
  have "cos (p2 + p1) \<le> 1" by (rule cos_le_one)
  then have "(1 + cos (p2 + p1)) / 2 \<le> 1" by simp
  then have sc: "(sin y)\<^sup>2 + c \<le> 1" by (simp only: e)
  from cs sc have hi: "(sin y)\<^sup>2 + c * s \<le> 1" by (rule order_trans [OF add_left_mono])
  from lo hi a show ?thesis by simp
qed

lemma calculate_distance_valid:
  assumes "validate_coordinates lat1 lon1" "validate_coordinates lat2 lon2"
  shows "\<exists>d. calculate_distance lat1 lon1 lat2 lon2 = Inr d \<and> 0 \<le> d"
proof -
  let ?a = "haversine_a lat1 lon1 lat2 lon2"
  have b: "0 \<le> ?a" "?a \<le> 1"
    using haversine_a_bounds [of lat1 lat2 lon1 lon2] assms
    by (simp_all add: validate_coordinates_def)
  have q0: "0 \<le> sqrt ?a" using b(1) by simp
  have q1: "sqrt ?a \<le> 1" using b(2) by simp
  have n: "\<not> ?a < 0" "\<not> (sqrt ?a < - 1 \<or> 1 < sqrt ?a)" using b(1) q0 q1 by linarith+
  have "0 \<le> arcsin (sqrt ?a)" using q0 q1 by (intro arcsin_nonneg) simp
  then show ?thesis
    unfolding calculate_distance_def Let_def math_sqrt_def math_asin_def
    using n by simp
qed

text \<open>
  C8. For all valid coordinate pairs, the distance from a point to itself is 0, and the
  distance between two points is computed without error, is not negative, and is the same
  in both directions; this holds for the copy in \<open>main.py\<close> and for the method of
  \<open>LocationService\<close>. (Without the validity, \<open>calculate_distance_self\<close> and
  \<open>calculate_distance_sym\<close> still hold.)
\<close>

theorem calculate_distance_zero_and_symmetric:
  assumes "validate_coordinates lat1 lon1" and "validate_coordinates lat2 lon2"
  shows "calculate_distance lat1 lon1 lat1 lon1 = Inr 0
       \<and> (\<exists>d. calculate_distance lat1 lon1 lat2 lon2 = Inr d
              \<and> calculate_distance lat2 lon2 lat1 lon1 = Inr d \<and> 0 \<le> d)
       \<and> LocationService_calculate_distance lat1 lon1 lat1 lon1 = Inr 0
       \<and> (\<exists>d. LocationService_calculate_distance lat1 lon1 lat2 lon2 = Inr d
              \<and> LocationService_calculate_distance lat2 lon2 lat1 lon1 = Inr d \<and> 0 \<le> d)"
proof -
  have same: "LocationService_calculate_distance = calculate_distance"
    by (intro ext) (simp add: LocationService_calculate_distance_def calculate_distance_def)
  obtain d where d: "calculate_distance lat1 lon1 lat2 lon2 = Inr d" "0 \<le> d"
    using calculate_distance_valid [OF assms] by blast
  have "calculate_distance lat2 lon2 lat1 lon1 = Inr d"
    using d(1) calculate_distance_sym [of lat1 lon1 lat2 lon2] by simp
  with d show ?thesis
    unfolding same using calculate_distance_self [of lat1 lon1] by simp
qed

theorem calculate_distance_zero_and_symmetric_witness:
  "validate_coordinates 40 (- 74) \<and> validate_coordinates 34 (- 118)
   \<and> calculate_distance 40 (- 74) 40 (- 74) = Inr 0
   \<and> calculate_distance 40 (- 74) 34 (- 118) = calculate_distance 34 (- 118) 40 (- 74)
   \<and> LocationService_calculate_distance 40 (- 74) 34 (- 118)
       = LocationService_calculate_distance 34 (- 118) 40 (- 74)"
proof -
  have v1: "validate_coordinates 40 (- 74)" by (simp add: validate_coordinates_def)
  have v2: "validate_coordinates 34 (- 118)" by (simp add: validate_coordinates_def)
  from calculate_distance_zero_and_symmetric [OF v1 v2] v1 v2 show ?thesis by auto
qed

section \<open>Properties of the location service\<close>

lemma reverse_geocode_no_city:
  "reverse_geocode self up lat lng = Some d \<Longrightarrow> map_of d ''city'' = None"
  by (auto simp: reverse_geocode_def split: if_splits http_result.splits option.splits list.splits)

lemma geocode_address_source:
  "geocode_address self up a = Some loc \<Longrightarrow> source loc = ''geocoded_address''"
  by (auto simp: geocode_address_def Let_def
           split: if_splits http_result.splits option.splits list.splits prod.splits)

text \<open>
  C7. With both coordinates given, whatever address and IP come with them and whatever the
  remote services answer, \<open>get_user_location\<close> returns a \<open>LocationData\<close> that carries the
  given coordinates and the source \<open>user_provided\<close>; it is never the result of geocoding
  the address.
\<close>

theorem get_user_location_coordinates_first:
  "(\<exists>loc. get_user_location self up ip_address (Some addr) (Some lat) (Some lng) = Some loc
          \<and> LocationData.latitude loc = lat \<and> LocationData.longitude loc = lng \<and> source loc = ''user_provided'')
   \<and> get_user_location self up ip_address (Some addr) (Some lat) (Some lng)
       \<noteq> geocode_address self up addr"
proof -
  let ?r = "get_user_location self up ip_address (Some addr) (Some lat) (Some lng)"
  obtain loc where loc: "?r = Some loc" "LocationData.latitude loc = lat" "LocationData.longitude loc = lng"
      "source loc = ''user_provided''"
    by (simp add: get_user_location_def Let_def)
  have "?r \<noteq> geocode_address self up addr"
  proof
    assume "?r = geocode_address self up addr"
    with loc have "geocode_address self up addr = Some loc" by simp
    from geocode_address_source [OF this] loc(4) show False by simp
  qed
  with loc show ?thesis by blast
qed

text \<open>
  C10. On the path with explicit coordinates the city is never filled in: the dictionary
  of \<open>reverse_geocode\<close>, when there is one, has exactly the keys \<open>formatted_address\<close> and
  \<open>place_id\<close>, so the lookup of \<open>city\<close> in it finds nothing and the returned
  \<open>LocationData\<close> has \<open>city = None\<close>.
\<close>

theorem get_user_location_coordinates_city_None:
  "(reverse_geocode self up lat lng = None
      \<or> (\<exists>fa pid. reverse_geocode self up lat lng
                    = Some [(''formatted_address'', fa), (''place_id'', pid)]))
   \<and> (\<exists>loc. get_user_location self up ip_address addr (Some lat) (Some lng) = Some loc
            \<and> city loc = None \<and> source loc = ''user_provided'')"
proof -
  have keys: "reverse_geocode self up lat lng = None
      \<or> (\<exists>fa pid. reverse_geocode self up lat lng
                    = Some [(''formatted_address'', fa), (''place_id'', pid)])"
    by (auto simp: reverse_geocode_def split: http_result.splits option.splits list.splits)
  have "city (the (get_user_location self up ip_address addr (Some lat) (Some lng))) = None"
    using reverse_geocode_no_city [of self up lat lng]
    by (auto simp: get_user_location_def Let_def split: option.splits)
  moreover have "\<exists>loc. get_user_location self up ip_address addr (Some lat) (Some lng) = Some loc
      \<and> source loc = ''user_provided''"
    by (simp add: get_user_location_def Let_def)
  ultimately show ?thesis using keys by auto
qed

section \<open>Properties of the fallback analysis\<close>

lemmas fallback_defs =
  dict_get_def as_num_def price_desc_of_def backend_price_desc_of_def backend_rating_def
  price_descriptions_get_def price_descriptions_def py_int_def num_times2_def to_float_def
  DBL_OVERFLOW_def trunc_int_def

lemma str_int_7: "str_int 7 = ''7''"
  by code_simp

lemma str_int_8: "str_int 8 = ''8''"
  by code_simp

lemma create_fallback_analysis_scores:
  assumes "create_fallback_analysis fmt d = Inr a"
  shows "\<exists>r score. as_num (dict_get d ''rating'' (JInt 0)) = Some r
           \<and> py_int (num_times2 r) = Inr score
           \<and> map_of (food_quality a) ''score'' = Some (JInt score)
           \<and> map_of (service_quality a) ''score'' = Some (JInt score)
           \<and> map_of (atmosphere a) ''score'' = Some (JInt score)
           \<and> map_of (value_for_money a) ''score'' = Some (JInt 7)
           \<and> confidence_score a = 0.3"
  using assms
  by (auto simp: create_fallback_analysis_def Let_def split: option.splits sum.splits)

lemma backend_create_fallback_analysis_scores:
  assumes "backend_create_fallback_analysis fmt d = Inr b"
  shows "\<exists>r score. as_num (backend_rating (dict_get d ''rating'' (JInt 0))) = Some r
           \<and> py_int (num_times2 r) = Inr score
           \<and> map_of (food_quality b) ''score'' = Some (JStr (str_int score))
           \<and> map_of (service_quality b) ''score'' = Some (JStr (str_int score))
           \<and> map_of (atmosphere b) ''score'' = Some (JStr (str_int score))
           \<and> map_of (value_for_money b) ''score'' = Some (JStr ''7'')
           \<and> confidence_score b = 0.3"
  using assms
  by (auto simp: backend_create_fallback_analysis_def Let_def split: option.splits sum.splits)

text \<open>
  \<open>int(rating * 2)\<close> on a float rating inside the range of a double is the truncation
  toward zero of the doubled rating, and on an integer rating the doubled integer.
\<close>

lemma score_of_float_rating:
  "\<bar>x * 2\<bar> < DBL_OVERFLOW \<Longrightarrow> py_int (num_times2 (PFloat (Finite x))) = Inr (trunc_int (x * 2))"
  by (auto simp: py_int_def num_times2_def to_float_def)

lemma score_of_int_rating: "py_int (num_times2 (PInt n)) = Inr (n * 2)"
  by (simp add: py_int_def num_times2_def)

text \<open>
  C6, as stated, fails. For the record \<open>{"rating": 4.3}\<close> the doubled rating 8.6 rounds to 9,
  but both copies of the fallback store \<open>int(8.6) = 8\<close> (the backend as the string \<open>8\<close>)
  in the blocks for food, service and atmosphere, and 7 in the block for value.
\<close>

theorem fallback_score_is_not_round:
  "py_round (4.3 * 2) = 9
   \<and> \<not> isl (create_fallback_analysis py_str [(''rating'', JFloat (Finite 4.3))])
   \<and> map_of (food_quality (projr (create_fallback_analysis py_str
               [(''rating'', JFloat (Finite 4.3))]))) ''score'' = Some (JInt 8)
   \<and> map_of (value_for_money (projr (create_fallback_analysis py_str
               [(''rating'', JFloat (Finite 4.3))]))) ''score'' = Some (JInt 7)
   \<and> \<not> isl (backend_create_fallback_analysis py_str [(''rating'', JFloat (Finite 4.3))])
   \<and> map_of (food_quality (projr (backend_create_fallback_analysis py_str
               [(''rating'', JFloat (Finite 4.3))]))) ''score'' = Some (JStr ''8'')
   \<and> map_of (value_for_money (projr (backend_create_fallback_analysis py_str
               [(''rating'', JFloat (Finite 4.3))]))) ''score'' = Some (JStr ''7'')"
  by (simp add: create_fallback_analysis_def backend_create_fallback_analysis_def fallback_defs
        Let_def py_round_def str_int_8)

text \<open>
  C6, amended. Whenever a copy of \<open>create_fallback_analysis\<close> returns, the rating (0 when
  absent; in the backend a string rating converted by \<open>float\<close>) is a number, the blocks
  for food, service and atmosphere carry the score \<open>int(rating * 2)\<close>, that is the doubled
  rating truncated toward zero and not rounded, the block for value carries the fixed
  score 7, and the confidence is 0.3. The copy in \<open>ai_analysis_service.py\<close> stores the
  scores as integers, the backend copy as their decimal strings.
\<close>

theorem fallback_scores_truncated:
  "(create_fallback_analysis fmt d = Inr a \<longrightarrow>
      (\<exists>r score. as_num (dict_get d ''rating'' (JInt 0)) = Some r
         \<and> py_int (num_times2 r) = Inr score
         \<and> map_of (food_quality a) ''score'' = Some (JInt score)
         \<and> map_of (service_quality a) ''score'' = Some (JInt score)
         \<and> map_of (atmosphere a) ''score'' = Some (JInt score)
         \<and> map_of (value_for_money a) ''score'' = Some (JInt 7)
         \<and> confidence_score a = 0.3))
   \<and> (backend_create_fallback_analysis fmt d = Inr b \<longrightarrow>
      (\<exists>r score. as_num (backend_rating (dict_get d ''rating'' (JInt 0))) = Some r
         \<and> py_int (num_times2 r) = Inr score
         \<and> map_of (food_quality b) ''score'' = Some (JStr (str_int score))
         \<and> map_of (service_quality b) ''score'' = Some (JStr (str_int score))
         \<and> map_of (atmosphere b) ''score'' = Some (JStr (str_int score))
         \<and> map_of (value_for_money b) ''score'' = Some (JStr ''7'')
         \<and> confidence_score b = 0.3))"
  using create_fallback_analysis_scores [of fmt d a]
        backend_create_fallback_analysis_scores [of fmt d b]
  by blast

theorem fallback_scores_truncated_witness:
  "create_fallback_analysis py_str [(''rating'', JFloat (Finite 4.3))]
     = Inr (projr (create_fallback_analysis py_str [(''rating'', JFloat (Finite 4.3))]))
   \<and> backend_create_fallback_analysis py_str [(''rating'', JFloat (Finite 4.3))]
     = Inr (projr (backend_create_fallback_analysis py_str [(''rating'', JFloat (Finite 4.3))]))
   \<and> map_of (atmosphere (projr (create_fallback_analysis py_str
               [(''rating'', JFloat (Finite 4.3))]))) ''score'' = Some (JInt 8)
   \<and> map_of (atmosphere (projr (backend_create_fallback_analysis py_str
               [(''rating'', JFloat (Finite 4.3))]))) ''score'' = Some (JStr ''8'')
   \<and> confidence_score (projr (create_fallback_analysis py_str
               [(''rating'', JFloat (Finite 4.3))])) = 0.3
   \<and> confidence_score (projr (backend_create_fallback_analysis py_str
               [(''rating'', JFloat (Finite 4.3))])) = 0.3"
proof -
  let ?d = "[(''rating'', JFloat (Finite 4.3))]"
  let ?a = "projr (create_fallback_analysis py_str ?d)"
  let ?b = "projr (backend_create_fallback_analysis py_str ?d)"
  have h1: "create_fallback_analysis py_str ?d = Inr ?a"
    by (simp add: create_fallback_analysis_def fallback_defs Let_def)
  have h2: "backend_create_fallback_analysis py_str ?d = Inr ?b"
    by (simp add: backend_create_fallback_analysis_def fallback_defs Let_def)
  have r: "as_num (dict_get ?d ''rating'' (JInt 0)) = Some (PFloat (Finite 4.3))"
      "as_num (backend_rating (dict_get ?d ''rating'' (JInt 0))) = Some (PFloat (Finite 4.3))"
    by (simp_all add: fallback_defs)
  have s: "py_int (num_times2 (PFloat (Finite 4.3))) = Inr 8"
    by (simp add: fallback_defs)
  from fallback_scores_truncated [of py_str ?d ?a ?b] h1 h2 r s
  have "map_of (atmosphere ?a) ''score'' = Some (JInt 8)
      \<and> map_of (atmosphere ?b) ''score'' = Some (JStr (str_int 8))
      \<and> confidence_score ?a = 0.3 \<and> confidence_score ?b = 0.3"
    by auto
  with h1 h2 show ?thesis by (simp add: str_int_8)
qed

text \<open>
  C9, as stated, fails. On the empty record both copies return, and the results differ:
  the scores are integers in one and strings in the other.
\<close>

theorem fallback_copies_unequal:
  "create_fallback_analysis py_str [] \<noteq> backend_create_fallback_analysis py_str []"
  by (simp add: create_fallback_analysis_def backend_create_fallback_analysis_def fallback_defs
        Let_def)

lemma stringify_scores_changes:
  assumes "create_fallback_analysis fmt d = Inr a"
  shows "stringify_scores a \<noteq> a"
proof -
  from create_fallback_analysis_scores [OF assms]
  have s: "map_of (value_for_money a) ''score'' = Some (JInt 7)" by blast
  then have t: "map_of (value_for_money (stringify_scores a)) ''score'' = Some (JStr (str_int 7))"
    by (simp add: stringify_scores_def stringify_score_def update_conv')
  show ?thesis
  proof
    assume "stringify_scores a = a"
    with s t show False by simp
  qed
qed

text \<open>
  C9, amended. For every input record whose rating is not a string and whose price level
  is absent, \<open>None\<close>, a bool or an integer, the backend copy returns what the copy in
  \<open>ai_analysis_service.py\<close> returns with every integer block score replaced by its decimal
  string, and raises the same exception when that copy raises. The two results are never
  equal when the first copy returns: its scores are integers, the backend's are strings.
\<close>

theorem backend_fallback_stringifies_scores:
  assumes "\<not> is_JStr (dict_get d ''rating'' (JInt 0))"
      and "plain_price_level (dict_get d ''price_level'' (JInt 2))"
  shows "backend_create_fallback_analysis fmt d
           = map_sum id stringify_scores (create_fallback_analysis fmt d)
         \<and> (\<forall>a. create_fallback_analysis fmt d = Inr a \<longrightarrow>
                backend_create_fallback_analysis fmt d = Inr (stringify_scores a)
                \<and> stringify_scores a \<noteq> a)"
proof -
  have r: "backend_rating (dict_get d ''rating'' (JInt 0)) = dict_get d ''rating'' (JInt 0)"
    using assms(1) by (auto simp: backend_rating_def is_JStr_def split: json.splits)
  have p: "backend_price_desc_of (dict_get d ''price_level'' (JInt 2))
             = price_desc_of (dict_get d ''price_level'' (JInt 2))"
    using assms(2)
    by (auto simp: backend_price_desc_of_def price_desc_of_def plain_price_level_def as_num_def
             split: json.splits)
  have e: "backend_create_fallback_analysis fmt d
             = map_sum id stringify_scores (create_fallback_analysis fmt d)"
    unfolding backend_create_fallback_analysis_def create_fallback_analysis_def Let_def r p
    by (auto simp: stringify_scores_def stringify_score_def str_int_7
             split: option.splits sum.splits)
  show ?thesis
    using e stringify_scores_changes [of fmt d] by simp
qed

theorem backend_fallback_stringifies_scores_witness:
  "\<not> is_JStr (dict_get [(''rating'', JFloat (Finite 4.3)), (''price_level'', JInt 3)]
                 ''rating'' (JInt 0))
   \<and> plain_price_level (dict_get [(''rating'', JFloat (Finite 4.3)), (''price_level'', JInt 3)]
                          ''price_level'' (JInt 2))
   \<and> \<not> isl (create_fallback_analysis py_str
               [(''rating'', JFloat (Finite 4.3)), (''price_level'', JInt 3)])
   \<and> backend_create_fallback_analysis py_str
        [(''rating'', JFloat (Finite 4.3)), (''price_level'', JInt 3)]
      = map_sum id stringify_scores (create_fallback_analysis py_str
          [(''rating'', JFloat (Finite 4.3)), (''price_level'', JInt 3)])"
proof -
  let ?d = "[(''rating'', JFloat (Finite 4.3)), (''price_level'', JInt 3)]"
  have h1: "\<not> is_JStr (dict_get ?d ''rating'' (JInt 0))"
    by (simp add: dict_get_def is_JStr_def)
  have h2: "plain_price_level (dict_get ?d ''price_level'' (JInt 2))"
    by (simp add: dict_get_def plain_price_level_def)
  have h3: "\<not> isl (create_fallback_analysis py_str ?d)"
    by (simp add: create_fallback_analysis_def fallback_defs Let_def)
  from backend_fallback_stringifies_scores [OF h1 h2, of py_str] h1 h2 h3
  show ?thesis by simp
qed

section \<open>Properties of the validation\<close>

lemma clamp_confidence_range:
  "\<exists>r. clamp_confidence c = Finite r \<and> 0 \<le> r \<and> r \<le> 1"
  by (cases c) (auto simp: clamp_confidence_def py_max_def py_min_def)

lemma clamp_confidence_Finite:
  "clamp_confidence (Finite x) = Finite (max 0 (min 1 x))"
  by (auto simp: clamp_confidence_def py_max_def py_min_def)

lemma py_float_errors:
  "py_float v = Inl e \<Longrightarrow> e = TypeError \<or> e = ValueError \<or> e = OverflowError"
  by (auto simp: py_float_def float_of_string_def Let_def
           split: json.splits if_splits prod.splits option.splits)

lemma py_float_overflow_iff:
  "py_float v = Inl OverflowError \<longleftrightarrow> (\<exists>n. v = JInt n \<and> DBL_OVERFLOW \<le> \<bar>real_of_int n\<bar>)"
  by (auto simp: py_float_def float_of_string_def Let_def
           split: json.splits if_splits prod.splits option.splits)

text \<open>
  What the first block of the validation does to a dictionary that has the key: unless
  \<open>float\<close> overflows, the confidence becomes a float between 0 and 1, namely the clamped
  value, or 0.5 when \<open>float\<close> raised \<open>ValueError\<close> or \<open>TypeError\<close>.
\<close>

lemma validate_confidence_result:
  assumes "map_of d ''confidence_score'' = Some v"
  shows "(py_float v = Inl OverflowError \<and> validate_confidence d = Inl OverflowError)
       \<or> (\<exists>r. validate_confidence d = Inr (AList.update ''confidence_score'' (JFloat (Finite r)) d)
              \<and> 0 \<le> r \<and> r \<le> 1
              \<and> ((\<exists>e. py_float v = Inl e \<and> r = 1 / 2)
                  \<or> (\<exists>c. py_float v = Inr c \<and> clamp_confidence c = Finite r)))"
proof (cases "py_float v")
  case (Inl e)
  then show ?thesis using assms py_float_errors [OF Inl]
    by (auto simp: validate_confidence_def)
next
  case (Inr c)
  obtain r where "clamp_confidence c = Finite r" "0 \<le> r" "r \<le> 1"
    using clamp_confidence_range by blast
  then show ?thesis using assms Inr
    by (auto simp: validate_confidence_def)
qed

lemma float_of_string_1_7: "float_of_string ''1.7'' = Inr (Finite (17 / 10))"
  by (simp add: float_of_string_def parse_sign_def float_strip_def float_isspace_def py_lower_def
        lower_char_def parse_floatnumber_def split_at_char_def parse_number_def
        is_ascii_digit_def digit_value_def digits_to_nat_def to_float_def DBL_OVERFLOW_def)

text \<open>The scenario of the specification: the string \<open>1.7\<close> is clamped to 1.\<close>

lemma validate_confidence_1_7:
  "validate_confidence [(''confidence_score'', JStr ''1.7'')]
     = Inr [(''confidence_score'', JFloat (Finite 1))]"
  by (simp add: validate_confidence_def py_float_def float_of_string_1_7 clamp_confidence_Finite)

lemma validate_confidence_non_numeric:
  "validate_confidence [(''confidence_score'', JStr ''high'')]
     = Inr [(''confidence_score'', JFloat (Finite (1 / 2)))]"
  by (simp add: validate_confidence_def py_float_def float_of_string_def parse_sign_def
        float_strip_def float_isspace_def py_lower_def lower_char_def parse_floatnumber_def
        split_at_char_def parse_number_def is_ascii_digit_def)

text \<open>
  C5. The claim holds for every value on which \<open>float\<close> does not overflow
  (\<open>validate_confidence_result\<close>, \<open>validate_confidence_1_7\<close>), and the code misses one
  case: for an integer beyond the range of a double, \<open>float\<close> raises \<open>OverflowError\<close>,
  which the handler for \<open>ValueError\<close> and \<open>TypeError\<close> does not catch. On
  \<open>{"confidence_score": 10 ** 400}\<close> the validation raises instead of clamping, and
  \<open>analyze_restaurant\<close> gives no analysis.
\<close>

theorem huge_confidence_escapes_validation:
  "validate_analysis_dict [(''confidence_score'', JInt (10 ^ 400))] = Inl OverflowError
   \<and> analysis_from_json (JObj [(''confidence_score'', JInt (10 ^ 400))]) = Inl OverflowError"
  by (simp add: analysis_from_json_def validate_analysis_dict_def validate_confidence_def
        py_float_def DBL_OVERFLOW_def)

lemma map_of_ensure_str:
  "map_of (ensure_str f d) k =
     (if k = f then Some (JStr (case map_of d f of Some (JStr s) \<Rightarrow> s | _ \<Rightarrow> ''Not available''))
      else map_of d k)"
  by (auto simp: ensure_str_def update_conv' split: option.splits json.splits)

lemma map_of_ensure_list:
  "map_of (ensure_list f d) k =
     (if k = f then Some (JList (case map_of d f of Some (JList xs) \<Rightarrow> xs | _ \<Rightarrow> []))
      else map_of d k)"
  by (auto simp: ensure_list_def update_conv' split: option.splits json.splits)

lemma map_of_ensure_dict:
  "map_of (ensure_dict f d) k =
     (if k = f then Some (JObj (case map_of d f of Some (JObj b) \<Rightarrow> b | _ \<Rightarrow> default_block))
      else map_of d k)"
  by (auto simp: ensure_dict_def update_conv' split: option.splits json.splits)

lemma map_of_validated:
  "map_of (fold ensure_dict dict_fields
             (fold ensure_list list_fields (fold ensure_str string_fields d1))) k =
     (if k \<in> {''overall_rating'', ''overall_summary'', ''recommendation'',
               ''price_range_assessment''}
        then Some (JStr (str_or_default d1 k))
      else if k \<in> {''key_highlights'', ''potential_concerns'', ''best_for''}
        then Some (JList (list_or_default d1 k))
      else if k \<in> {''food_quality'', ''service_quality'', ''atmosphere'', ''value_for_money''}
        then Some (JObj (block_or_default d1 k))
      else map_of d1 k)"
  by (simp add: string_fields_def list_fields_def dict_fields_def
        map_of_ensure_str map_of_ensure_list map_of_ensure_dict
        str_or_default_def list_or_default_def block_or_default_def)

text \<open>
  A dictionary without the key \<open>confidence_score\<close> passes the validation without getting
  one, and the constructor rejects it.
\<close>

lemma missing_confidence_rejected:
  assumes "map_of d ''confidence_score'' = None"
  shows "analysis_from_json (JObj d) = Inl ValidationError"
proof -
  have v: "validate_confidence d = Inr d"
    using assms by (simp add: validate_confidence_def)
  have "field_confidence (fold ensure_dict dict_fields
          (fold ensure_list list_fields (fold ensure_str string_fields d))) = None"
    by (simp add: field_confidence_def map_of_validated assms)
  then show ?thesis
    by (simp add: analysis_from_json_def validate_analysis_dict_def v
          RestaurantAnalysis_init_def split: Option.bind_splits)
qed

lemma all_item_str:
  "list_all is_JStr xs \<Longrightarrow>
     list_all (\<lambda>x. item_str x \<noteq> None) xs \<and> map JStr (map (\<lambda>x. the (item_str x)) xs) = xs"
  by (induction xs) (auto simp: is_JStr_def item_str_def split: json.splits)

text \<open>
  The repair the validation does perform: when the dictionary has a confidence on which
  \<open>float\<close> does not overflow, and the lists it gives for the list fields hold strings, an
  analysis is built in which every field of the wrong shape or missing has its default.
\<close>

lemma analysis_from_json_repairs:
  assumes conf: "map_of d ''confidence_score'' = Some v" "py_float v \<noteq> Inl OverflowError"
    and items: "\<forall>k \<in> set list_fields. list_all is_JStr (list_or_default d k)"
  shows "\<exists>a. analysis_from_json (JObj d) = Inr a
           \<and> overall_rating a = str_or_default d ''overall_rating''
           \<and> overall_summary a = str_or_default d ''overall_summary''
           \<and> recommendation a = str_or_default d ''recommendation''
           \<and> price_range_assessment a = str_or_default d ''price_range_assessment''
           \<and> food_quality a = block_or_default d ''food_quality''
           \<and> service_quality a = block_or_default d ''service_quality''
           \<and> atmosphere a = block_or_default d ''atmosphere''
           \<and> value_for_money a = block_or_default d ''value_for_money''
           \<and> map JStr (key_highlights a) = list_or_default d ''key_highlights''
           \<and> map JStr (potential_concerns a) = list_or_default d ''potential_concerns''
           \<and> map JStr (best_for a) = list_or_default d ''best_for''
           \<and> 0 \<le> confidence_score a \<and> confidence_score a \<le> 1"
proof -
  from validate_confidence_result [OF conf(1)] conf(2)
  obtain r where r:
      "validate_confidence d = Inr (AList.update ''confidence_score'' (JFloat (Finite r)) d)"
      "0 \<le> r" "r \<le> 1"
    by auto
  define d1 where "d1 = AList.update ''confidence_score'' (JFloat (Finite r)) d"
  define d' where "d' = fold ensure_dict dict_fields
                          (fold ensure_list list_fields (fold ensure_str string_fields d1))"
  have v: "validate_analysis_dict d = Inr d'"
    by (simp add: validate_analysis_dict_def r(1) d'_def d1_def)
  have same: "\<And>k. k \<noteq> ''confidence_score'' \<Longrightarrow> map_of d1 k = map_of d k"
    by (simp add: update_conv' d1_def)
  have sd: "\<And>k. k \<noteq> ''confidence_score'' \<Longrightarrow> str_or_default d1 k = str_or_default d k"
    and ld: "\<And>k. k \<noteq> ''confidence_score'' \<Longrightarrow> list_or_default d1 k = list_or_default d k"
    and bd: "\<And>k. k \<noteq> ''confidence_score'' \<Longrightarrow> block_or_default d1 k = block_or_default d k"
    by (simp_all add: str_or_default_def list_or_default_def block_or_default_def same)
  have s1: "field_str d' ''overall_rating'' = Some (str_or_default d ''overall_rating'')"
    and s2: "field_str d' ''overall_summary'' = Some (str_or_default d ''overall_summary'')"
    and s3: "field_str d' ''recommendation'' = Some (str_or_default d ''recommendation'')"
    and s4: "field_str d' ''price_range_assessment''
               = Some (str_or_default d ''price_range_assessment'')"
    by (simp_all add: field_str_def d'_def map_of_validated sd)
  have b1: "field_dict d' ''food_quality'' = Some (block_or_default d ''food_quality'')"
    and b2: "field_dict d' ''service_quality'' = Some (block_or_default d ''service_quality'')"
    and b3: "field_dict d' ''atmosphere'' = Some (block_or_default d ''atmosphere'')"
    and b4: "field_dict d' ''value_for_money'' = Some (block_or_default d ''value_for_money'')"
    by (simp_all add: field_dict_def d'_def map_of_validated bd)
  have i1: "list_all is_JStr (list_or_default d ''key_highlights'')"
    and i2: "list_all is_JStr (list_or_default d ''potential_concerns'')"
    and i3: "list_all is_JStr (list_or_default d ''best_for'')"
    using items by (simp_all add: list_fields_def)
  define y1 where "y1 = map (\<lambda>x. the (item_str x)) (list_or_default d ''key_highlights'')"
  define y2 where "y2 = map (\<lambda>x. the (item_str x)) (list_or_default d ''potential_concerns'')"
  define y3 where "y3 = map (\<lambda>x. the (item_str x)) (list_or_default d ''best_for'')"
  have l1: "field_str_list d' ''key_highlights'' = Some y1"
    using all_item_str [OF i1]
    by (simp add: field_str_list_def d'_def map_of_validated ld y1_def)
  have l2: "field_str_list d' ''potential_concerns'' = Some y2"
    using all_item_str [OF i2]
    by (simp add: field_str_list_def d'_def map_of_validated ld y2_def)
  have l3: "field_str_list d' ''best_for'' = Some y3"
    using all_item_str [OF i3]
    by (simp add: field_str_list_def d'_def map_of_validated ld y3_def)
  have m: "map JStr y1 = list_or_default d ''key_highlights''"
      "map JStr y2 = list_or_default d ''potential_concerns''"
      "map JStr y3 = list_or_default d ''best_for''"
    using all_item_str [OF i1] all_item_str [OF i2] all_item_str [OF i3]
    by (simp_all add: y1_def y2_def y3_def)
  have c: "field_confidence d' = Some r"
    using r(2,3)
    by (simp add: field_confidence_def d'_def d1_def map_of_validated update_conv' py_float_def)
  have "RestaurantAnalysis_init d' =
      Inr \<lparr> overall_rating = str_or_default d ''overall_rating'',
            overall_summary = str_or_default d ''overall_summary'',
            food_quality = block_or_default d ''food_quality'',
            service_quality = block_or_default d ''service_quality'',
            atmosphere = block_or_default d ''atmosphere'',
            value_for_money = block_or_default d ''value_for_money'',
            key_highlights = y1, potential_concerns = y2,
            recommendation = str_or_default d ''recommendation'',
            best_for = y3,
            price_range_assessment = str_or_default d ''price_range_assessment'',
            confidence_score = r \<rparr>"
    unfolding RestaurantAnalysis_init_def
    by (simp add: s1 s2 s3 s4 b1 b2 b3 b4 l1 l2 l3 c)
  then show ?thesis
    using v m r(2,3) by (simp add: analysis_from_json_def)
qed

text \<open>
  C4. The claim holds for a dictionary that has a confidence
  (\<open>analysis_from_json_repairs\<close>), and the code misses the case without one: the
  validation gives every other field its default when it is absent, but touches
  \<open>confidence_score\<close> only when the key is there. On the answer \<open>{}\<close>, which decodes to the
  empty dictionary, the validation returns a dictionary without a confidence, the
  constructor raises \<open>ValidationError\<close>, \<open>analyze_restaurant\<close> returns \<open>None\<close>, and
  \<open>analyze_single_restaurant\<close> gives the fallback analysis.
\<close>

theorem empty_object_falls_back:
  "map_of (projr (validate_analysis_dict [])) ''confidence_score'' = None
   \<and> analysis_from_json (JObj []) = Inl ValidationError
   \<and> analyze_restaurant True (Content (Some ''{}'')) [''{}'' \<mapsto> JObj []] = None
   \<and> analyze_single_restaurant py_str True (Content (Some ''{}'')) [''{}'' \<mapsto> JObj []] []
       = backend_create_fallback_analysis py_str []"
proof -
  have v: "map_of (projr (validate_analysis_dict [])) ''confidence_score'' = None"
    by (simp add: validate_analysis_dict_def validate_confidence_def map_of_validated)
  have a: "analysis_from_json (JObj []) = Inl ValidationError"
    by (rule missing_confidence_rejected) simp
  have s: "strip_code_fence (py_strip ''{}'') = ''{}''"
    by (simp add: strip_code_fence_def py_strip_def py_isspace_def code_fence_open_def)
  have b: "analyze_restaurant True (Content (Some ''{}'')) [''{}'' \<mapsto> JObj []] = None"
    by (simp add: analyze_restaurant_def s a)
  show ?thesis using v a b by (simp add: analyze_single_restaurant_def)
qed

section \<open>Properties of the restaurant search\<close>

subsection \<open>The page loop\<close>

lemma process_places_length:
  "process_places k lat lng mr mx ps rs = Inr rs' \<Longrightarrow> int (length rs) \<le> mx
     \<Longrightarrow> int (length rs') \<le> mx"
  by (induction ps arbitrary: rs) (auto split: if_splits sum.splits)

lemma process_places_origin:
  "process_places k lat lng mr mx ps rs = Inr rs' \<Longrightarrow> r \<in> set rs'
     \<Longrightarrow> r \<in> set rs \<or> (\<exists>p \<in> set ps. mr \<le> opt_default (pl_rating p) 0
                           \<and> format_restaurant_data k p lat lng = Inr r)"
proof (induction ps arbitrary: rs)
  case Nil
  then show ?case by simp
next
  case (Cons p ps)
  show ?case
  proof (cases "mx \<le> int (length rs)")
    case True
    with Cons.prems show ?thesis by simp
  next
    case full: False
    show ?thesis
    proof (cases "mr \<le> opt_default (pl_rating p) 0")
      case False
      with full Cons.prems have "process_places k lat lng mr mx ps rs = Inr rs'" by simp
      from Cons.IH [OF this Cons.prems(2)] show ?thesis by auto
    next
      case True
      with full Cons.prems obtain x where x: "format_restaurant_data k p lat lng = Inr x"
          "process_places k lat lng mr mx ps (rs @ [x]) = Inr rs'"
        by (auto split: sum.splits)
      from Cons.IH [OF x(2) Cons.prems(2)] x(1) True show ?thesis by auto
    qed
  qed
qed

lemma page_served:
  "client n req = HTTPBody data \<Longrightarrow> p \<in> set (opt_default (pd_results data) []) \<Longrightarrow> served client p"
  by (cases "pd_results data") (auto simp: served_def opt_default_def)

lemma process_places_from_served:
  assumes "process_places k lat lng mr mx (opt_default (pd_results data) []) rs = Inr rs'"
    and "client n req = HTTPBody data"
    and "\<forall>r \<in> set rs. from_served client k lat lng mr r"
  shows "\<forall>r \<in> set rs'. from_served client k lat lng mr r"
proof
  fix r assume "r \<in> set rs'"
  from process_places_origin [OF assms(1) this] assms(3)
    page_served [where client = client and n = n and req = req, OF assms(2)]
  show "from_served client k lat lng mr r"
    unfolding from_served_def by blast
qed

lemma fetch_next_pages_invariant:
  assumes "fetch_next_pages client k lat lng mr mx n tok rs = Some y"
  shows "\<forall>rs'. y = Inr rs' \<longrightarrow>
           (int (length rs) \<le> mx \<longrightarrow> int (length rs') \<le> mx)
           \<and> ((\<forall>r \<in> set rs. from_served client k lat lng mr r)
                \<longrightarrow> (\<forall>r \<in> set rs'. from_served client k lat lng mr r))"
  using assms
proof (induct rule: fetch_next_pages.raw_induct [rotated 1, consumes 1])
  case (1 fetch client k lat lng mr mx n tok rs y)
  show ?case
  proof (cases "truthy_str tok \<and> int (length rs) < mx")
    case False
    with 1(2) show ?thesis by auto
  next
    case go: True
    show ?thesis
    proof (cases "client n (NextPage (the tok))")
      case HTTPFailure
      with go 1(2) show ?thesis by auto
    next
      case HTTPBodyInvalid
      with go 1(2) show ?thesis by auto
    next
      case (HTTPBody data)
      show ?thesis
      proof (cases "pd_status data \<noteq> Some ''OK''")
        case True
        with go HTTPBody 1(2) show ?thesis by auto
      next
        case ok: False
        show ?thesis
        proof (cases "process_places k lat lng mr mx (opt_default (pd_results data) []) rs")
          case (Inl e)
          with go HTTPBody ok 1(2) show ?thesis by auto
        next
          case (Inr rs1)
          with go HTTPBody ok 1(2)
          have rec: "fetch client k lat lng mr mx (Suc n) (pd_next_page_token data) rs1 = Some y"
            by simp
          note ih = 1(1) [OF rec]
          show ?thesis
            using ih process_places_length [OF Inr]
              process_places_from_served [where client = client and n = n
                and req = "NextPage (the tok)", OF Inr HTTPBody]
            by blast
        qed
      qed
    qed
  qed
qed

lemma set_insort_restaurant: "set (insort_restaurant x ys) = insert x (set ys)"
  by (induction ys) auto

lemma length_insort_restaurant: "length (insort_restaurant x ys) = Suc (length ys)"
  by (induction ys) auto

lemma set_sort_restaurants: "set (sort_restaurants rs) = set rs"
  by (induction rs) (auto simp: sort_restaurants_def set_insort_restaurant)

lemma length_sort_restaurants: "length (sort_restaurants rs) = length rs"
  by (induction rs) (auto simp: sort_restaurants_def length_insort_restaurant)

lemma search_pages_invariant:
  assumes "search_pages client k lat lng rm mr mx = Some (Inr rs)" and "0 \<le> mx"
  shows "int (length rs) \<le> mx \<and> (\<forall>r \<in> set rs. from_served client k lat lng mr r)"
proof (cases "client 0 (NearbySearch lat lng rm)")
  case HTTPFailure
  with assms(1) show ?thesis by (simp add: search_pages_def)
next
  case HTTPBodyInvalid
  with assms(1) show ?thesis by (simp add: search_pages_def)
next
  case (HTTPBody data)
  with assms(1) obtain rs0 where
      p: "process_places k lat lng mr mx (opt_default (pd_results data) []) [] = Inr rs0"
      and f: "fetch_next_pages client k lat lng mr mx 1 (pd_next_page_token data) rs0 = Some (Inr rs)"
    by (auto simp: search_pages_def split: if_splits sum.splits)
  have l0: "int (length rs0) \<le> mx"
    using process_places_length [OF p] assms(2) by simp
  have s0: "\<forall>r \<in> set rs0. from_served client k lat lng mr r"
    using process_places_from_served [where client = client and n = 0
        and req = "NearbySearch lat lng rm", OF p HTTPBody] by simp
  from fetch_next_pages_invariant [OF f] l0 s0 show ?thesis by blast
qed

lemma format_restaurant_data_distance:
  "format_restaurant_data k p lat lng = Inr r \<Longrightarrow>
     \<exists>d. calculate_distance lat lng (opt_default (pl_lat p) 0) (opt_default (pl_lng p) 0) = Inr d
        \<and> distance_miles r = Some (py_round2 d) \<and> rating r = pl_rating p"
  by (auto simp: format_restaurant_data_def Let_def split: sum.splits)

lemma loop_reaches_search_pages:
  assumes "loop_reaches client k lat lng rm mr mx n tok rs"
  shows "search_pages client k lat lng rm mr mx = fetch_next_pages client k lat lng mr mx n tok rs"
  using assms
proof (induction rule: loop_reaches.induct)
  case (first_page data rs)
  then show ?case by (simp add: search_pages_def)
next
  case (next_page n tok rs data rs')
  have "fetch_next_pages client k lat lng mr mx n tok rs
          = fetch_next_pages client k lat lng mr mx (Suc n) (pd_next_page_token data) rs'"
    using next_page.hyps(2-6) by (subst fetch_next_pages.simps) simp
  with next_page.IH show ?case by simp
qed

lemma fetch_next_pages_status_error:
  assumes "truthy_str tok" "int (length rs) < mx"
    and "client n (NextPage (the tok)) = HTTPBody data" "pd_status data \<noteq> Some ''OK''"
  shows "fetch_next_pages client k lat lng mr mx n tok rs = Some (Inr rs)"
  using assms by (subst fetch_next_pages.simps) simp

lemma fetch_next_pages_transport_error:
  assumes "truthy_str tok" "int (length rs) < mx"
    and "client n (NextPage (the tok)) = HTTPFailure"
  shows "fetch_next_pages client k lat lng mr mx n tok rs = Some (Inl Raised_HTTPError)"
  using assms by (subst fetch_next_pages.simps) simp

lemma fetch_next_pages_done:
  assumes "\<not> truthy_str tok \<or> \<not> int (length rs) < mx"
  shows "fetch_next_pages client k lat lng mr mx n tok rs = Some (Inr rs)"
  using assms by (subst fetch_next_pages.simps) auto

subsection \<open>Distances of the example places\<close>

lemma calculate_distance_equator:
  assumes "0 \<le> lon" "lon \<le> 180"
  shows "calculate_distance 0 0 0 lon = Inr (3959 * (lon * pi / 180))"
proof -
  let ?h = "lon * pi / 360"
  have h: "0 \<le> ?h" "?h \<le> pi / 2" using assms by (simp_all add: field_simps)
  have a: "haversine_a 0 0 0 lon = (sin ?h)\<^sup>2"
    by (simp add: haversine_a_def radians_def)
  have s0: "0 \<le> sin ?h" using h by (intro sin_ge_zero) (auto intro: order_trans)
  have s1: "sin ?h \<le> 1" by simp
  have q: "sqrt ((sin ?h)\<^sup>2) = sin ?h" using s0 by simp
  have lo: "- (pi / 2) \<le> ?h" using h(1) pi_gt_zero by linarith
  have r: "arcsin (sin ?h) = ?h" using lo h(2) by (rule arcsin_sin)
  have n0: "\<not> (sin ?h)\<^sup>2 < 0" by (simp add: not_less)
  have n1: "\<not> (sin ?h < - 1 \<or> 1 < sin ?h)" using s0 s1 by linarith
  have "calculate_distance 0 0 0 lon = Inr (3959 * (2 * ?h))"
    unfolding calculate_distance_def Let_def a math_sqrt_def math_asin_def
    using n0 n1 by (simp only: if_False q r sum.case)
  then show ?thesis by simp
qed

lemma py_round_near: "\<bar>real_of_int (py_round x) - x\<bar> \<le> 1 / 2"
  unfolding py_round_def Let_def by (auto; linarith)

lemma py_round2_near: "\<bar>py_round2 x - x\<bar> \<le> 1 / 200"
proof -
  have "\<bar>real_of_int (py_round (x * 100)) - x * 100\<bar> \<le> 1 / 2" by (rule py_round_near)
  then show ?thesis unfolding py_round2_def by (simp add: field_simps abs_le_iff)
qed

lemma py_round2_0: "py_round2 0 = 0"
  by (simp add: py_round2_def py_round_def)


lemma py_round2_lower: "x - 1 / 200 \<le> py_round2 x"
  using py_round2_near [of x] by linarith

lemma py_round2_upper: "py_round2 x \<le> x + 1 / 200"
  using py_round2_near [of x] by linarith

lemma far_distance_bounds: "43 < far_distance"
proof -
  define x where "x = 3959 * (1 * pi / 180)"
  have "x = pi * (3959 / 180)" by (simp add: x_def)
  moreover have "2 * (3959 / 180) \<le> pi * (3959 / 180)"
    using pi_ge_two by (intro mult_right_mono) auto
  ultimately have "43 + 1 / 200 < x" by simp
  with py_round2_lower [of x] show ?thesis unfolding far_distance_def x_def [symmetric] by linarith
qed

lemma near_distance_bounds: "0 < near_distance \<and> near_distance < 999"
proof -
  define x where "x = 3959 * (1 / 10 * pi / 180)"
  have e: "x = pi * (3959 / 1800)" by (simp add: x_def)
  have "2 * (3959 / 1800) \<le> pi * (3959 / 1800)"
    using pi_ge_two by (intro mult_right_mono) auto
  with e have lo: "1 / 200 < x" by simp
  have "pi * (3959 / 1800) \<le> 4 * (3959 / 1800)"
    using pi_less_4 by (intro mult_right_mono) auto
  with e have hi: "x + 1 / 200 < 999" by simp
  from lo hi py_round2_lower [of x] py_round2_upper [of x] show ?thesis
    unfolding near_distance_def x_def [symmetric] by linarith
qed

lemma place_at_rating: "pl_rating (place_at i x y s) = Some s"
  by (simp add: place_at_def)

lemma format_far:
  "format_restaurant_data ''key'' (place_at ''far'' 0 1 4) 0 0
     = Inr (example_restaurant ''far'' 1 far_distance)"
  using calculate_distance_equator [of 1]
  by (simp add: format_restaurant_data_def place_at_def opt_default_def far_distance_def
        example_restaurant_def)

lemma format_here:
  "format_restaurant_data ''key'' (place_at ''here'' 0 0 4) 0 0
     = Inr (example_restaurant ''here'' 0 0)"
  by (simp add: format_restaurant_data_def place_at_def opt_default_def
        calculate_distance_self py_round2_0 example_restaurant_def)

lemma format_near:
  "format_restaurant_data ''key'' (place_at ''near'' 0 (1 / 10) 4) 0 0
     = Inr (example_restaurant ''near'' (1 / 10) near_distance)"
  using calculate_distance_equator [of "1 / 10"]
  by (simp add: format_restaurant_data_def place_at_def opt_default_def near_distance_def
        example_restaurant_def)

lemma far_search:
  "find_restaurants (Some ''key'') far_place_api 0 0 0 10 0 60 =
     Some (Inr \<lparr> restaurants = [example_restaurant ''far'' 1 far_distance],
                  total_found = 1,
                  search_location = [(''lat'', 0), (''lng'', 0)],
                  radius_miles = 10,
                  timestamp = 0 \<rparr>)"
  by (simp add: find_restaurants_def search_pages_def far_place_api_def truthy_str_def
        opt_default_def place_at_rating format_far fetch_next_pages_done sort_restaurants_def)

lemma doorstep_search:
  "find_restaurants (Some ''key'') doorstep_api 0 0 0 10 0 60 =
     Some (Inr \<lparr> restaurants = [example_restaurant ''near'' (1 / 10) near_distance,
                                  example_restaurant ''here'' 0 0],
                  total_found = 2,
                  search_location = [(''lat'', 0), (''lng'', 0)],
                  radius_miles = 10,
                  timestamp = 0 \<rparr>)"
  using near_distance_bounds
  by (simp add: find_restaurants_def search_pages_def doorstep_api_def truthy_str_def
        opt_default_def place_at_rating format_here format_near fetch_next_pages_done
        sort_restaurants_def sort_key_def key_lt_def py_or_def example_restaurant_def)

lemma first_page_here:
  "process_places ''key'' 0 0 0 60 (opt_default (pd_results first_page_with_token) []) []
     = Inr [example_restaurant ''here'' 0 0]"
  by (simp add: first_page_with_token_def opt_default_def place_at_rating format_here)

lemma first_page_reached:
  assumes "client 0 (NearbySearch 0 0 rm) = HTTPBody first_page_with_token"
  shows "loop_reaches client ''key'' 0 0 rm 0 60 1 (Some ''token'')
           [example_restaurant ''here'' 0 0]"
proof -
  have "loop_reaches client ''key'' 0 0 rm 0 60 1 (pd_next_page_token first_page_with_token)
          [example_restaurant ''here'' 0 0]"
    using assms
    by (rule loop_reaches.first_page) (simp_all add: first_page_here, simp add: first_page_with_token_def)
  then show ?thesis by (simp add: first_page_with_token_def)
qed

subsection \<open>Length and origin of the results\<close>

lemma format_at_origin:
  "format_restaurant_data ''key'' (place_at i 0 0 4) 0 0 = Inr (example_restaurant i 0 0)"
  by (simp add: format_restaurant_data_def place_at_def opt_default_def
        calculate_distance_self py_round2_0 example_restaurant_def)

lemma endless_results:
  "pd_results endless_page = Some [place_at ''a'' 0 0 4, place_at ''b'' 0 0 4]"
  "pd_status endless_page = Some ''OK''"
  "pd_next_page_token endless_page = Some ''more''"
  by (simp_all add: endless_page_def)

lemma endless_first_page:
  "process_places ''key'' 0 0 0 3 (opt_default (pd_results endless_page) []) []
     = Inr [example_restaurant ''a'' 0 0, example_restaurant ''b'' 0 0]"
  by (simp add: endless_results opt_default_def place_at_rating format_at_origin)

text \<open>The second page meets the cap of three results after its first place.\<close>

lemma endless_second_page:
  "process_places ''key'' 0 0 0 3 (opt_default (pd_results endless_page) [])
       [example_restaurant ''a'' 0 0, example_restaurant ''b'' 0 0]
     = Inr [example_restaurant ''a'' 0 0, example_restaurant ''b'' 0 0,
            example_restaurant ''a'' 0 0]"
  by (simp add: endless_results opt_default_def place_at_rating format_at_origin)

lemma endless_reaches_cap:
  "loop_reaches endless_api ''key'' 0 0 rm 0 3 2 (Some ''more'')
     [example_restaurant ''a'' 0 0, example_restaurant ''b'' 0 0, example_restaurant ''a'' 0 0]"
proof -
  have one: "loop_reaches endless_api ''key'' 0 0 rm 0 3 1 (pd_next_page_token endless_page)
      [example_restaurant ''a'' 0 0, example_restaurant ''b'' 0 0]"
    by (rule loop_reaches.first_page [where data = endless_page])
       (simp_all add: endless_api_def endless_results(2) endless_first_page)
  have "loop_reaches endless_api ''key'' 0 0 rm 0 3 (Suc 1) (pd_next_page_token endless_page)
      [example_restaurant ''a'' 0 0, example_restaurant ''b'' 0 0, example_restaurant ''a'' 0 0]"
    by (rule loop_reaches.next_page [OF one, where data = endless_page])
       (simp_all add: endless_api_def endless_results(2,3) endless_second_page truthy_str_def)
  then show ?thesis by (simp add: endless_results(3) numeral_2_eq_2)
qed

text \<open>
  With the rating filter at 5 no place of the endless upstream is kept, the list stays
  empty and every page brings a token: the loop never ends.
\<close>

lemma endless_filtered_page:
  "process_places k lat lng 5 60 (opt_default (pd_results endless_page) []) [] = Inr []"
  by (simp add: endless_results opt_default_def place_at_rating)

lemma endless_loop_never_returns:
  assumes "fetch_next_pages client k lat lng mr mx n tok rs = Some y"
    and "client = endless_api" "mr = 5" "mx = 60" "tok = Some ''more''" "rs = []"
  shows False
  using assms
proof (induct rule: fetch_next_pages.raw_induct [rotated 1, consumes 1])
  case (1 fetch client k lat lng mr mx n tok rs y)
  have "fetch client k lat lng mr mx (Suc n) (Some ''more'') [] = Some y"
    using 1(2) unfolding 1(3-7)
    by (simp add: truthy_str_def endless_api_def endless_results(2,3) endless_filtered_page)
  from 1(1) [OF this] 1(3-5) show False by simp
qed

lemma endless_search_never_returns:
  "find_restaurants (Some ''key'') endless_api 0 0 0 10 5 60 = None"
proof -
  have "fetch_next_pages endless_api ''key'' 0 0 5 60 1 (Some ''more'') [] = None"
  proof (cases "fetch_next_pages endless_api ''key'' 0 0 5 60 1 (Some ''more'') []")
    case (Some y)
    from endless_loop_never_returns [OF this] show ?thesis by simp
  qed simp
  then have "search_pages endless_api ''key'' 0 0 (trunc_int (10 * METERS_PER_MILE)) 5 60 = None"
    by (simp add: search_pages_def endless_api_def endless_results(2,3) endless_filtered_page)
  then show ?thesis
    by (simp add: find_restaurants_def truthy_str_def)
qed

lemma unavailable_search_fails:
  "find_restaurants (Some ''key'') unavailable_api 0 0 0 10 0 60
     = Some (Inl (HTTPException 500 ''Failed to fetch restaurant data''))"
  by (simp add: find_restaurants_def search_pages_def unavailable_api_def truthy_str_def)

text \<open>
  The loop ends, with the accumulated list, when there is no token or the cap is reached,
  and when the continuation page answers with a status other than \<open>OK\<close>.
\<close>

lemma loop_exit_result:
  assumes "\<not> (truthy_str tok \<and> int (length rs) < mx)
       \<or> (\<exists>data. client n (NextPage (the tok)) = HTTPBody data \<and> pd_status data \<noteq> Some ''OK'')"
  shows "fetch_next_pages client k lat lng mr mx n tok rs = Some (Inr rs)"
proof (cases "truthy_str tok \<and> int (length rs) < mx")
  case False
  then show ?thesis by (intro fetch_next_pages_done) blast
next
  case True
  with assms obtain data where "client n (NextPage (the tok)) = HTTPBody data"
      "pd_status data \<noteq> Some ''OK''" by blast
  with True show ?thesis by (intro fetch_next_pages_status_error) auto
qed

text \<open>
  C1, as stated, fails. The code never compares a distance with the radius: with the
  radius and the result count at their maxima (10 miles, 60 results), an upstream that
  hands out a place one degree of longitude away gets that place back, at more than 43
  miles. And not every search within the bounds returns a list: when the upstream fails
  the search raises, and when the upstream keeps handing out tokens while no place passes
  the rating filter the search never returns.
\<close>

theorem far_place_returned_beyond_radius:
  "find_restaurants (Some ''key'') far_place_api 0 0 0 10 0 60 \<noteq> None
   \<and> \<not> isl (the (find_restaurants (Some ''key'') far_place_api 0 0 0 10 0 60))
   \<and> radius_miles (projr (the (find_restaurants (Some ''key'') far_place_api 0 0 0 10 0 60))) = 10
   \<and> length (restaurants (projr (the
        (find_restaurants (Some ''key'') far_place_api 0 0 0 10 0 60)))) = 1
   \<and> 43 < the (distance_miles (hd (restaurants (projr (the
        (find_restaurants (Some ''key'') far_place_api 0 0 0 10 0 60))))))
   \<and> find_restaurants (Some ''key'') unavailable_api 0 0 0 10 0 60
       = Some (Inl (HTTPException 500 ''Failed to fetch restaurant data''))
   \<and> find_restaurants (Some ''key'') endless_api 0 0 0 10 5 60 = None"
  using far_distance_bounds
  by (simp add: far_search example_restaurant_def unavailable_search_fails
        endless_search_never_returns)

text \<open>
  What every returned response satisfies, whichever way the search came to return.
\<close>

lemma find_restaurants_response_bounded:
  assumes "find_restaurants key client now lat lng radius min_rating max_results = Some (Inr resp)"
    and "0 \<le> max_results"
  shows "int (length (restaurants resp)) \<le> max_results
       \<and> total_found resp = int (length (restaurants resp))
       \<and> (\<forall>r \<in> set (restaurants resp).
            \<exists>p d. served client p
              \<and> min_rating \<le> opt_default (pl_rating p) 0
              \<and> calculate_distance lat lng (opt_default (pl_lat p) 0) (opt_default (pl_lng p) 0)
                  = Inr d
              \<and> distance_miles r = Some (py_round2 d))"
proof -
  from assms(1) obtain rs where
      s: "search_pages client (the key) lat lng (trunc_int (radius * METERS_PER_MILE))
            min_rating max_results = Some (Inr rs)"
      and resp: "restaurants resp = sort_restaurants rs"
           "total_found resp = int (length (sort_restaurants rs))"
    by (auto simp: find_restaurants_def Let_def
             split: if_splits option.splits sum.splits raised.splits)
  from search_pages_invariant [OF s assms(2)]
  have l: "int (length rs) \<le> max_results"
    and o: "\<forall>r \<in> set rs. from_served client (the key) lat lng min_rating r"
    by blast+
  show ?thesis
    using l o resp format_restaurant_data_distance
    unfolding from_served_def
    by (fastforce simp: length_sort_restaurants set_sort_restaurants)
qed

text \<open>
  C1, amended. For every search request with an API key and with \<open>max_results\<close> not
  negative (so for every value within its bounds 1 to 60, and for every radius): once the
  first page has succeeded and the page loop comes to its end, because there is no page
  token, because \<open>max_results\<close> is reached, or because a continuation page answers with a
  status other than \<open>OK\<close>, \<open>find_restaurants\<close> returns a response. Its list is the
  accumulated restaurants, sorted; it has at most \<open>max_results\<close> entries and \<open>total_found\<close>
  is its length; every returned restaurant comes from a place that the upstream handed out
  and whose rating (0 when absent) is at least \<open>min_rating\<close>, and its \<open>distance_miles\<close> is
  the haversine distance from the origin to that place rounded to two decimals. The
  distance is not compared with the radius.
\<close>

theorem find_restaurants_capped:
  assumes "truthy_str key" and "0 \<le> max_results"
    and "loop_reaches client (the key) lat lng (trunc_int (radius * METERS_PER_MILE))
           min_rating max_results n tok rs"
    and "\<not> (truthy_str tok \<and> int (length rs) < max_results)
       \<or> (\<exists>data. client n (NextPage (the tok)) = HTTPBody data \<and> pd_status data \<noteq> Some ''OK'')"
  shows "\<exists>resp. find_restaurants key client now lat lng radius min_rating max_results
                  = Some (Inr resp)
           \<and> restaurants resp = sort_restaurants rs
           \<and> int (length (restaurants resp)) \<le> max_results
           \<and> total_found resp = int (length (restaurants resp))
           \<and> (\<forall>r \<in> set (restaurants resp).
                \<exists>p d. served client p
                  \<and> min_rating \<le> opt_default (pl_rating p) 0
                  \<and> calculate_distance lat lng (opt_default (pl_lat p) 0)
                        (opt_default (pl_lng p) 0) = Inr d
                  \<and> distance_miles r = Some (py_round2 d))"
proof -
  define resp where "resp = \<lparr> restaurants = sort_restaurants rs,
      total_found = int (length (sort_restaurants rs)),
      search_location = [(''lat'', lat), (''lng'', lng)],
      radius_miles = radius, timestamp = now \<rparr>"
  have "search_pages client (the key) lat lng (trunc_int (radius * METERS_PER_MILE))
          min_rating max_results = Some (Inr rs)"
    by (simp only: loop_reaches_search_pages [OF assms(3)]
          loop_exit_result [where client = client and n = n and tok = tok and rs = rs
            and mx = max_results, OF assms(4)])
  then have f: "find_restaurants key client now lat lng radius min_rating max_results
                  = Some (Inr resp)"
    using assms(1) by (simp add: find_restaurants_def Let_def resp_def)
  from find_restaurants_response_bounded [OF f assms(2)] f show ?thesis
    by (intro exI [of _ resp]) (simp add: resp_def)
qed

text \<open>
  An instance: two pages of the endless upstream are read with room for three results,
  the second page is cut at the cap, and the search returns although a token is left.
\<close>

theorem find_restaurants_capped_witness:
  "truthy_str (Some ''key'') \<and> (0::int) \<le> 3
   \<and> loop_reaches endless_api ''key'' 0 0 (trunc_int (10 * METERS_PER_MILE)) 0 3 2 (Some ''more'')
       [example_restaurant ''a'' 0 0, example_restaurant ''b'' 0 0, example_restaurant ''a'' 0 0]
   \<and> \<not> (truthy_str (Some ''more'')
         \<and> int (length [example_restaurant ''a'' 0 0, example_restaurant ''b'' 0 0,
                         example_restaurant ''a'' 0 0]) < 3)
   \<and> find_restaurants (Some ''key'') endless_api 0 0 0 10 0 3 \<noteq> None
   \<and> \<not> isl (the (find_restaurants (Some ''key'') endless_api 0 0 0 10 0 3))
   \<and> map place_id (restaurants (projr (the
        (find_restaurants (Some ''key'') endless_api 0 0 0 10 0 3)))) = [''a'', ''b'', ''a'']
   \<and> int (length (restaurants (projr (the
        (find_restaurants (Some ''key'') endless_api 0 0 0 10 0 3))))) \<le> 3
   \<and> total_found (projr (the (find_restaurants (Some ''key'') endless_api 0 0 0 10 0 3))) = 3"
proof -
  let ?rs = "[example_restaurant ''a'' 0 0, example_restaurant ''b'' 0 0,
              example_restaurant ''a'' 0 0]"
  have k: "truthy_str (Some ''key'')" by (simp add: truthy_str_def)
  have m: "(0::int) \<le> 3" by simp
  have r: "loop_reaches endless_api ''key'' 0 0 (trunc_int (10 * METERS_PER_MILE)) 0 3 2
             (Some ''more'') ?rs"
    by (rule endless_reaches_cap)
  then have r': "loop_reaches endless_api (the (Some ''key'')) 0 0
             (trunc_int (10 * METERS_PER_MILE)) 0 3 2 (Some ''more'') ?rs"
    by simp
  have e: "\<not> (truthy_str (Some ''more'') \<and> int (length ?rs) < 3)" by simp
  then have e': "\<not> (truthy_str (Some ''more'') \<and> int (length ?rs) < 3)
       \<or> (\<exists>data. endless_api 2 (NextPage (the (Some ''more''))) = HTTPBody data
                  \<and> pd_status data \<noteq> Some ''OK'')"
    by blast
  have srt: "sort_restaurants ?rs = ?rs"
    by (simp add: sort_restaurants_def sort_key_def key_lt_def example_restaurant_def)
  from find_restaurants_capped [OF k m r' e', of 0]
  obtain resp where resp: "find_restaurants (Some ''key'') endless_api 0 0 0 10 0 3 = Some (Inr resp)"
      "restaurants resp = sort_restaurants ?rs" "int (length (restaurants resp)) \<le> 3"
      "total_found resp = int (length (restaurants resp))"
    by blast
  have ids: "map place_id ?rs = [''a'', ''b'', ''a'']" by (simp add: example_restaurant_def)
  from resp srt ids k m r e show ?thesis by simp
qed

subsection \<open>Order of the results\<close>

lemma key_le_trans: "key_le a b \<Longrightarrow> key_le b c \<Longrightarrow> key_le a c"
  unfolding key_le_def key_lt_def by (cases "sort_key a"; cases "sort_key b"; cases "sort_key c") auto

lemma key_le_total: "\<not> key_le a b \<Longrightarrow> key_le b a"
  unfolding key_le_def key_lt_def by (cases "sort_key a"; cases "sort_key b") auto

lemma sorted_insort_restaurant:
  "sorted_wrt key_le ys \<Longrightarrow> sorted_wrt key_le (insort_restaurant x ys)"
proof (induction ys)
  case Nil
  then show ?case by simp
next
  case (Cons y ys)
  show ?case
  proof (cases "key_lt (sort_key y) (sort_key x)")
    case True
    then have yx: "key_le y x"
      unfolding key_le_def key_lt_def by (cases "sort_key x"; cases "sort_key y") auto
    from Cons True yx show ?thesis
      by (auto simp: set_insort_restaurant)
  next
    case False
    then have xy: "key_le x y" by (simp add: key_le_def)
    with Cons.prems False show ?thesis
      by (auto intro: key_le_trans)
  qed
qed

lemma sorted_sort_restaurants: "sorted_wrt key_le (sort_restaurants rs)"
  by (induction rs) (auto simp: sort_restaurants_def sorted_insort_restaurant)

lemma key_le_adjacent_ok:
  assumes "key_le a b"
    and "distance_miles a = Some da" "da \<noteq> 0"
    and "distance_miles b = Some db" "db \<noteq> 0"
  shows "adjacent_ok a b"
  using assms
  unfolding key_le_def key_lt_def sort_key_def adjacent_ok_def py_or_def opt_default_def
  by (auto split: option.splits if_splits)

lemma sorted_adjacent_all:
  "sorted_wrt key_le rs \<Longrightarrow> \<forall>r \<in> set rs. \<exists>d. distance_miles r = Some d \<and> d \<noteq> 0
     \<Longrightarrow> adjacent_all rs"
proof (induction rs rule: adjacent_all.induct)
  case (1 r1 r2 rs)
  then have "key_le r1 r2" by simp
  moreover from 1(3) obtain d1 d2 where "distance_miles r1 = Some d1" "d1 \<noteq> 0"
      "distance_miles r2 = Some d2" "d2 \<noteq> 0" by auto
  ultimately have "adjacent_ok r1 r2" by (rule key_le_adjacent_ok)
  with 1 show ?case by simp
qed simp_all

lemma find_restaurants_sorted:
  assumes "find_restaurants key client now lat lng radius min_rating max_results = Some (Inr resp)"
  shows "sorted_wrt key_le (restaurants resp)
       \<and> ((\<forall>r \<in> set (restaurants resp). distance_miles r \<noteq> Some 0) \<longrightarrow>
             adjacent_all (restaurants resp))"
proof -
  from assms obtain rs where
      s: "search_pages client (the key) lat lng (trunc_int (radius * METERS_PER_MILE))
            min_rating max_results = Some (Inr rs)"
      and resp: "restaurants resp = sort_restaurants rs"
    by (auto simp: find_restaurants_def Let_def
             split: if_splits option.splits sum.splits raised.splits)
  have srt: "sorted_wrt key_le (restaurants resp)" by (simp add: resp sorted_sort_restaurants)
  have dist: "\<forall>r \<in> set (restaurants resp). \<exists>d. distance_miles r = Some d"
  proof
    fix r assume "r \<in> set (restaurants resp)"
    then have "r \<in> set rs" by (simp add: resp set_sort_restaurants)
    moreover have "\<forall>r \<in> set rs. from_served client (the key) lat lng min_rating r"
    proof (cases "client 0 (NearbySearch lat lng (trunc_int (radius * METERS_PER_MILE)))")
      case (HTTPBody data)
      with s obtain rs0 where
          p: "process_places (the key) lat lng min_rating max_results
                (opt_default (pd_results data) []) [] = Inr rs0"
          and f: "fetch_next_pages client (the key) lat lng min_rating max_results 1
                (pd_next_page_token data) rs0 = Some (Inr rs)"
        by (auto simp: search_pages_def split: if_splits sum.splits)
      have "\<forall>r \<in> set rs0. from_served client (the key) lat lng min_rating r"
        using process_places_from_served [where client = client and n = 0
          and req = "NearbySearch lat lng (trunc_int (radius * METERS_PER_MILE))", OF p HTTPBody]
        by simp
      with fetch_next_pages_invariant [OF f] show ?thesis by blast
    qed (use s in \<open>simp_all add: search_pages_def\<close>)
    ultimately obtain p where "format_restaurant_data (the key) p lat lng = Inr r"
      unfolding from_served_def by blast
    from format_restaurant_data_distance [OF this]
    show "\<exists>d. distance_miles r = Some d" by blast
  qed
  show ?thesis
  proof (intro conjI impI)
    assume nz: "\<forall>r \<in> set (restaurants resp). distance_miles r \<noteq> Some 0"
    have "\<forall>r \<in> set (restaurants resp). \<exists>d. distance_miles r = Some d \<and> d \<noteq> 0"
      using dist nz by fastforce
    with srt show "adjacent_all (restaurants resp)" by (rule sorted_adjacent_all)
  qed (rule srt)
qed

text \<open>
  C2. The results are sorted by the key, and the key is the distance except for the
  distance 0.0, which \<open>r.distance_miles or 999\<close> replaces by 999 (\<open>find_restaurants_sorted\<close>:
  the claimed order holds whenever no returned distance is 0). A search from the doorstep
  of a restaurant therefore puts that restaurant, at distance 0.0, behind one that is
  several miles away.
\<close>

theorem zero_distance_sorted_last:
  "map place_id (restaurants (projr (the
      (find_restaurants (Some ''key'') doorstep_api 0 0 0 10 0 60)))) = [''near'', ''here'']
   \<and> distance_miles (restaurants (projr (the
      (find_restaurants (Some ''key'') doorstep_api 0 0 0 10 0 60))) ! 1) = Some 0
   \<and> 0 < the (distance_miles (restaurants (projr (the
      (find_restaurants (Some ''key'') doorstep_api 0 0 0 10 0 60))) ! 0))
   \<and> \<not> adjacent_all (restaurants (projr (the
      (find_restaurants (Some ''key'') doorstep_api 0 0 0 10 0 60))))"
  using near_distance_bounds
  by (simp add: doorstep_search adjacent_ok_def opt_default_def example_restaurant_def)

subsection \<open>Failures of a continuation page\<close>

text \<open>
  C3, as stated, fails for the transport error: the request of a continuation page is
  inside the same \<open>try\<close> block as the first one, so an \<open>httpx.HTTPError\<close> there reaches
  the handler and the whole search fails with status 500, although the first page had
  given a restaurant.
\<close>

theorem continuation_transport_error_fails_search:
  "find_restaurants (Some ''key'') failing_continuation_api 0 0 0 10 0 60
     = Some (Inl (HTTPException 500 ''Failed to fetch restaurant data''))"
proof -
  have r: "loop_reaches failing_continuation_api ''key'' 0 0
          (trunc_int (10 * METERS_PER_MILE)) 0 60 1 (Some ''token'')
          [example_restaurant ''here'' 0 0]"
    by (rule first_page_reached) (simp add: failing_continuation_api_def)
  have f: "fetch_next_pages failing_continuation_api ''key'' 0 0 0 60 1 (Some ''token'')
             [example_restaurant ''here'' 0 0] = Some (Inl Raised_HTTPError)"
    by (rule fetch_next_pages_transport_error)
       (simp_all add: truthy_str_def failing_continuation_api_def)
  have sp: "search_pages failing_continuation_api ''key'' 0 0
              (trunc_int (10 * METERS_PER_MILE)) 0 60 = Some (Inl Raised_HTTPError)"
    by (simp only: loop_reaches_search_pages [OF r] f)
  show ?thesis
    by (simp add: find_restaurants_def truthy_str_def sp)
qed

text \<open>
  C3, amended. Let the first page have succeeded and the search stand at the head of the
  page loop with the restaurants \<open>rs\<close> accumulated so far, a token, and room for more
  results. If the continuation request answers with a status other than \<open>OK\<close>, the search
  stops paginating and returns \<open>rs\<close>, sorted. If the continuation request fails in the
  transport, the whole search fails with an \<open>HTTPException\<close> of status 500.
\<close>

theorem continuation_status_error_returns_accumulated:
  assumes "truthy_str key"
    and "loop_reaches client (the key) lat lng (trunc_int (radius * METERS_PER_MILE))
           min_rating max_results n tok rs"
    and "truthy_str tok" and "int (length rs) < max_results"
  shows "(\<forall>data. client n (NextPage (the tok)) = HTTPBody data \<and> pd_status data \<noteq> Some ''OK'' \<longrightarrow>
            find_restaurants key client now lat lng radius min_rating max_results
              = Some (Inr \<lparr> restaurants = sort_restaurants rs,
                            total_found = int (length rs),
                            search_location = [(''lat'', lat), (''lng'', lng)],
                            radius_miles = radius,
                            timestamp = now \<rparr>))
       \<and> (client n (NextPage (the tok)) = HTTPFailure \<longrightarrow>
            find_restaurants key client now lat lng radius min_rating max_results
              = Some (Inl (HTTPException 500 ''Failed to fetch restaurant data'')))"
proof -
  note s = loop_reaches_search_pages [OF assms(2)]
  show ?thesis
    using assms(1)
    by (auto simp: find_restaurants_def Let_def s length_sort_restaurants
          fetch_next_pages_status_error [OF assms(3,4)]
          fetch_next_pages_transport_error [OF assms(3,4)])
qed

theorem continuation_status_error_returns_accumulated_witness:
  "truthy_str (Some ''key'')
   \<and> loop_reaches denied_continuation_api ''key'' 0 0 (trunc_int (10 * METERS_PER_MILE)) 0 60
       1 (Some ''token'') [example_restaurant ''here'' 0 0]
   \<and> truthy_str (Some ''token'')
   \<and> int (length [example_restaurant ''here'' 0 0]) < 60
   \<and> find_restaurants (Some ''key'') denied_continuation_api 0 0 0 10 0 60
       = Some (Inr \<lparr> restaurants = [example_restaurant ''here'' 0 0],
                      total_found = 1,
                      search_location = [(''lat'', 0), (''lng'', 0)],
                      radius_miles = 10,
                      timestamp = 0 \<rparr>)"
proof -
  let ?rs = "[example_restaurant ''here'' 0 0]"
  have k: "truthy_str (Some ''key'')" by (simp add: truthy_str_def)
  have r0: "loop_reaches denied_continuation_api ''key'' 0 0
          (trunc_int (10 * METERS_PER_MILE)) 0 60 1 (Some ''token'') ?rs"
    by (rule first_page_reached) (simp add: denied_continuation_api_def)
  then have r: "loop_reaches denied_continuation_api (the (Some ''key'')) 0 0
          (trunc_int (10 * METERS_PER_MILE)) 0 60 1 (Some ''token'') ?rs"
    by simp
  have t: "truthy_str (Some ''token'')" by (simp add: truthy_str_def)
  have l: "int (length ?rs) < 60" by simp
  have c: "denied_continuation_api 1 (NextPage (the (Some ''token'')))
             = HTTPBody \<lparr> pd_status = Some ''INVALID_REQUEST'', pd_results = None,
                          pd_next_page_token = None \<rparr>"
    by (simp add: denied_continuation_api_def)
  from continuation_status_error_returns_accumulated [OF k r t l, of 0] c
  have "find_restaurants (Some ''key'') denied_continuation_api 0 0 0 10 0 60
       = Some (Inr \<lparr> restaurants = sort_restaurants ?rs, total_found = int (length ?rs),
           search_location = [(''lat'', 0), (''lng'', 0)], radius_miles = 10, timestamp = 0 \<rparr>)"
    by simp
  with k r0 t l show ?thesis by (simp add: sort_restaurants_def)
qed

end
